theory Spec2Isabelle
  imports Complex_Main
begin

section \<open>Data model of the capture service\<close>

text \<open>
  The embedding follows \<^verbatim>\<open>videoCap_service.py\<close> (class \<^verbatim>\<open>VideoCapService\<close>) and
  \<^verbatim>\<open>objectDetect_service.py\<close> (class \<^verbatim>\<open>ObjectDetectService\<close>).  The instance
  attributes of a service are the fields of a record that every method takes and gives
  back.  What a method reads from outside the process (the result of a frame read, the
  clock, whether a source opens, a random draw) is an argument of its model, so a
  theorem quantified over these arguments speaks about every behaviour of the outside.
  Wall-clock time (\<^verbatim>\<open>time.time()\<close>, \<^verbatim>\<open>timezone.now()\<close>) is a real number of
  seconds on one scale.  Database and store operations are taken to succeed; the
  exceptions of the Python code itself (a missing dictionary key, an attribute of
  \<^verbatim>\<open>None\<close>, a bad argument of a numpy call) are values of \<open>py_error\<close>.
\<close>

type_synonym bytes = "nat list"

datatype frame = Frame (frame_height: int) (frame_width: int) (frame_pixels: bytes)

datatype py_error = KeyError | AttributeError | ValueError | MultipleObjectsReturned

text \<open>
  Modelled from the spec: \<^verbatim>\<open>models.py\<close> is not among the sources.  A row of
  \<^verbatim>\<open>VideoCapConfig\<close> carries the fields the two services use: the primary key, the name,
  the stream address, the active flag and the sampling interval of the consumer.
\<close>

record config =
  config_id :: nat
  name :: string
  rtmp_url :: string
  is_active :: bool
  frame_interval :: real

text \<open>
  Modelled from the spec: a row of \<^verbatim>\<open>CurrentVideoClip\<close>, with the fields that
  \<^verbatim>\<open>_save_video_clip_metadata\<close> passes to \<^verbatim>\<open>objects.create\<close>.
\<close>

record clip =
  clip_config :: nat
  clip_path :: string
  clip_start_time :: real
  clip_end_time :: real
  clip_duration :: real

text \<open>The local variables of \<^verbatim>\<open>_capture_loop\<close> that live across iterations.\<close>

record locals =
  reconnect_start_time :: "real option"
  reconnect_attempts :: nat
  last_frame_time :: real
  video_clip_start_time :: real
  hls_output :: string
  ffmpeg_process :: nat

text \<open>
  A capture thread is created by \<^verbatim>\<open>start_server\<close>; it is \<open>Ready\<close> until it has run
  lines 121-159.  Then it is at the head of its \<^verbatim>\<open>while\<close> loop with its local variables
  (\<open>InLoop\<close>), or past the test of line 161 and inside an iteration (\<open>InBody\<close>), and
  \<open>Done\<close> once \<^verbatim>\<open>_capture_loop\<close> has returned.
\<close>

datatype tstate = Ready | InLoop locals | InBody locals | Done

record thread =
  t_url :: string
  t_state :: tstate

text \<open>
  The service: its dictionaries, the two database tables, the key-value store, and the
  resources of the operating system it holds (open decode handles, live segmenting
  subprocesses, threads).  A decode handle and a subprocess are named by a number;
  \<open>caps\<close> maps a stream to \<open>None\<close> (the Python value) or to a handle.
\<close>

record vstate =
  configs :: "string \<rightharpoonup> config"
  caps :: "string \<rightharpoonup> nat option"
  running :: "string \<rightharpoonup> bool"
  capture_threads :: "string \<rightharpoonup> nat"
  redis :: "string \<rightharpoonup> bytes"
  vcc_table :: "config list"
  clip_table :: "clip list"
  open_caps :: "nat set"
  next_cap :: nat
  threads :: "thread list"
  ffmpeg_live :: "nat set"
  next_pid :: nat
  sleep_log :: "real list"

text \<open>What one iteration of the capture loop reads from outside.\<close>

record iter_env =
  e_read :: "frame option"
  e_time :: real
  e_reopen :: bool
  e_check :: real
  e_now1 :: real
  e_now2 :: real

text \<open>What lines 121-159 read from outside: two clock readings and whether
  \<^verbatim>\<open>subprocess.Popen\<close> starts the segmenting process.\<close>

record begin_env =
  b_time1 :: real
  b_time2 :: real
  b_popen :: bool

datatype iter_result = Continue | Break | Stopped | Raised py_error

section \<open>Constants of \<^verbatim>\<open>VideoCapService.__init__\<close>\<close>

definition max_reconnect_attempts :: nat where
  "max_reconnect_attempts = 5"

definition reconnect_timeout :: real where
  "reconnect_timeout = 5"

definition video_clip_duration :: real where
  "video_clip_duration = 30"

definition video_clip_dir :: string where
  "video_clip_dir = ''tmp/video_clip''"

definition redis_key :: "string \<Rightarrow> string" where
  "redis_key url = ''video_cap_service:current_image:'' @ url"

section \<open>The configuration table\<close>

text \<open>\<^verbatim>\<open>str\<close> of a primary key, for \<^verbatim>\<open>f"Config_{config.id}"\<close>.\<close>

fun str_nat :: "nat \<Rightarrow> string" where
  "str_nat n =
     (if n < 10 then [''0123456789'' ! n]
      else str_nat (n div 10) @ [''0123456789'' ! (n mod 10)])"

declare str_nat.simps [simp del]

definition new_id :: "config list \<Rightarrow> nat" where
  "new_id tbl = Suc (fold max (map config_id tbl) 0)"

text \<open>\<^verbatim>\<open>config.save()\<close>: the row with the object's primary key is overwritten, and
  inserted when the table has none.\<close>

definition save_row :: "config \<Rightarrow> config list \<Rightarrow> config list" where
  "save_row c tbl =
     (if config_id c \<in> set (map config_id tbl)
      then map (\<lambda>r. if config_id r = config_id c then c else r) tbl
      else tbl @ [c])"

text \<open>\<^verbatim>\<open>VideoCapConfig.objects.get_or_create(rtmp_url=url)\<close>.  The defaults of the
  other fields are declared in \<^verbatim>\<open>models.py\<close>, so they are the argument \<open>dflt\<close>.\<close>

definition get_or_create ::
  "config \<Rightarrow> string \<Rightarrow> config list \<Rightarrow> py_error + (config \<times> bool \<times> config list)" where
  "get_or_create dflt url tbl =
     (case filter (\<lambda>r. rtmp_url r = url) tbl of
        [] \<Rightarrow> (let c = dflt\<lparr>config_id := new_id tbl, rtmp_url := url\<rparr>
               in Inr (c, True, tbl @ [c]))
      | [c] \<Rightarrow> Inr (c, False, tbl)
      | _ \<Rightarrow> Inl MultipleObjectsReturned)"

section \<open>Decode handles\<close>

definition release :: "nat \<Rightarrow> vstate \<Rightarrow> vstate" where
  "release h s = s\<lparr>open_caps := open_caps s - {h}\<rparr>"

text \<open>\<^verbatim>\<open>rtmp_url in self.caps and self.caps[rtmp_url] is not None and
  self.caps[rtmp_url].isOpened()\<close> (line 162).\<close>

definition cap_is_opened :: "string \<Rightarrow> vstate \<Rightarrow> bool" where
  "cap_is_opened url s =
     (case caps s url of
        Some (Some h) \<Rightarrow> h \<in> open_caps s
      | _ \<Rightarrow> False)"

text \<open>\<^verbatim>\<open>_initialize_capture\<close> (lines 105-118).  \<open>opens\<close> says whether the new
  \<^verbatim>\<open>cv2.VideoCapture\<close> is opened; when it is not, the exception raised at line 115 is
  caught at line 116 and the entry becomes \<^verbatim>\<open>None\<close>.\<close>

definition initialize_capture :: "bool \<Rightarrow> string \<Rightarrow> vstate \<Rightarrow> vstate" where
  "initialize_capture opens url s =
     (let s1 = (case caps s url of Some (Some h) \<Rightarrow> release h s | _ \<Rightarrow> s);
          h' = next_cap s1
      in if opens
         then s1\<lparr>caps := (caps s1)(url \<mapsto> Some h'),
                 open_caps := insert h' (open_caps s1),
                 next_cap := Suc h'\<rparr>
         else s1\<lparr>caps := (caps s1)(url \<mapsto> None), next_cap := Suc h'\<rparr>)"

text \<open>\<^verbatim>\<open>_reconnect\<close> (lines 210-216): release, one second of sleep, initialise again.
  No caller uses the returned boolean.\<close>

definition reconnect :: "bool \<Rightarrow> string \<Rightarrow> vstate \<Rightarrow> vstate" where
  "reconnect opens url s =
     (let s1 = (case caps s url of Some (Some h) \<Rightarrow> release h s | _ \<Rightarrow> s);
          s2 = s1\<lparr>caps := (caps s1)(url \<mapsto> None)\<rparr>;
          s3 = s2\<lparr>sleep_log := sleep_log s2 @ [1]\<rparr>
      in initialize_capture opens url s3)"

text \<open>\<^verbatim>\<open>_set_inactive\<close> (lines 218-232).\<close>

definition set_inactive :: "string \<Rightarrow> vstate \<Rightarrow> py_error option \<times> vstate" where
  "set_inactive url s =
     (case configs s url of
        None \<Rightarrow> (Some KeyError, s)
      | Some c \<Rightarrow>
          (let c' = c\<lparr>is_active := False\<rparr>;
               s1 = s\<lparr>configs := (configs s)(url \<mapsto> c'),
                      vcc_table := save_row c' (vcc_table s)\<rparr>;
               s2 = s1\<lparr>running := (running s1)(url \<mapsto> False)\<rparr>;
               s3 = (case caps s2 url of Some (Some h) \<Rightarrow> release h s2 | _ \<Rightarrow> s2);
               s4 = s3\<lparr>caps := (caps s3)(url \<mapsto> None)\<rparr>;
               s5 = s4\<lparr>capture_threads := (capture_threads s4)(url := None)\<rparr>
           in (None, s5\<lparr>redis := (redis s5)(redis_key url := None)\<rparr>)))"

text \<open>\<^verbatim>\<open>update_frame\<close> (lines 234-242); \<open>imencode\<close> stands for the JPEG encoder
  of OpenCV.\<close>

definition update_frame ::
  "(frame \<Rightarrow> bytes) \<Rightarrow> string \<Rightarrow> frame option \<Rightarrow> vstate \<Rightarrow> vstate" where
  "update_frame imencode url fr s =
     (case fr of
        None \<Rightarrow> s
      | Some f \<Rightarrow> s\<lparr>redis := (redis s)(redis_key url \<mapsto> imencode f)\<rparr>)"

text \<open>\<^verbatim>\<open>timedelta(seconds=d)\<close> keeps whole microseconds: the number of microseconds
  is rounded to the nearest integer, a tie to the even one.  The product of the seconds
  and one million is taken exactly, as all arithmetic on times here.\<close>

definition round_half_even :: "real \<Rightarrow> int" where
  "round_half_even x =
     (let f = \<lfloor>x\<rfloor>; r = x - of_int f
      in if r < 1 / 2 then f
         else if 1 / 2 < r then f + 1
         else if even f then f else f + 1)"

definition timedelta_seconds :: "real \<Rightarrow> real" where
  "timedelta_seconds d = of_int (round_half_even (d * 1000000)) / 1000000"

text \<open>\<^verbatim>\<open>_save_video_clip_metadata\<close> (lines 244-255).  The two calls of
  \<^verbatim>\<open>timezone.now()\<close> are two readings of the clock, \<open>now1\<close> for \<^verbatim>\<open>start_time\<close> and
  \<open>now2\<close> for \<^verbatim>\<open>end_time\<close>; \<^verbatim>\<open>start_time\<close> is the first reading less the
  \<^verbatim>\<open>timedelta\<close> of the duration, while the \<^verbatim>\<open>duration\<close> field gets the number
  itself.\<close>

definition save_video_clip_metadata ::
  "real \<Rightarrow> real \<Rightarrow> string \<Rightarrow> string \<Rightarrow> real \<Rightarrow> real \<Rightarrow> vstate \<Rightarrow> py_error option \<times> vstate" where
  "save_video_clip_metadata now1 now2 url hls t_start t_end s =
     (case configs s url of
        None \<Rightarrow> (Some KeyError, s)
      | Some c \<Rightarrow>
          (let d = t_end - t_start
           in (None, s\<lparr>clip_table := clip_table s @
                 [\<lparr>clip_config = config_id c, clip_path = hls,
                   clip_start_time = now1 - timedelta_seconds d, clip_end_time = now2,
                   clip_duration = d\<rparr>]\<rparr>)))"

section \<open>The capture loop\<close>

text \<open>The body of the \<^verbatim>\<open>while\<close> loop up to line 185: the read and its three outcomes,
  or the reconnect when there is no open handle.  The result carries an exception that
  left the body, the service and the local variables.\<close>

definition note_reconnect :: "real \<Rightarrow> locals \<Rightarrow> locals" where
  "note_reconnect t l =
     (if reconnect_start_time l = None
      then l\<lparr>reconnect_start_time := Some t,
              reconnect_attempts := reconnect_attempts l + 1\<rparr>
      else l)"

definition capture_body ::
  "iter_env \<Rightarrow> string \<Rightarrow> vstate \<Rightarrow> locals \<Rightarrow> py_error option \<times> vstate \<times> locals" where
  "capture_body env url s l =
     (if cap_is_opened url s then
        (let current_time = e_time env in
         case e_read env of
           Some fr \<Rightarrow>
             (let l1 = l\<lparr>last_frame_time := current_time,
                         reconnect_start_time := None,
                         reconnect_attempts := 0\<rparr>
              in if current_time - video_clip_start_time l1 \<ge> video_clip_duration
                 then (case save_video_clip_metadata (e_now1 env) (e_now2 env) url
                              (hls_output l1) (video_clip_start_time l1) current_time s of
                         (Some e, s1) \<Rightarrow> (Some e, s1, l1)
                       | (None, s1) \<Rightarrow>
                           (None, s1, l1\<lparr>video_clip_start_time := current_time\<rparr>))
                 else (None, s, l1))
         | None \<Rightarrow>
             if current_time - last_frame_time l > 1
             then (None, reconnect (e_reopen env) url s, note_reconnect current_time l)
             else (None, s, l))
      else (None, reconnect (e_reopen env) url s, note_reconnect (e_time env) l))"

text \<open>Lines 187-191: the escalation test at the end of every iteration.\<close>

definition capture_check ::
  "iter_env \<Rightarrow> string \<Rightarrow> vstate \<Rightarrow> locals \<Rightarrow> iter_result \<times> vstate" where
  "capture_check env url s l =
     (case reconnect_start_time l of
        None \<Rightarrow> (Continue, s)
      | Some t0 \<Rightarrow>
          (let elapsed_time = e_check env - t0
           in if elapsed_time > reconnect_timeout
                 \<or> reconnect_attempts l > max_reconnect_attempts
              then (case set_inactive url s of
                      (Some e, s1) \<Rightarrow> (Raised e, s1)
                    | (None, s1) \<Rightarrow> (Break, s1))
              else (Continue, s)))"

text \<open>Lines 162-191: one iteration after the test of line 161 has let it in.
  \<open>Raised\<close>: an exception left the loop (to line 193).\<close>

definition capture_rest ::
  "iter_env \<Rightarrow> string \<Rightarrow> vstate \<Rightarrow> locals \<Rightarrow> iter_result \<times> vstate \<times> locals" where
  "capture_rest env url s l =
     (case capture_body env url s l of
        (Some e, s1, l1) \<Rightarrow> (Raised e, s1, l1)
      | (None, s1, l1) \<Rightarrow>
          (case capture_check env url s1 l1 of (r, s2) \<Rightarrow> (r, s2, l1)))"

text \<open>One pass through line 161 and the body.  \<open>Stopped\<close>: the run flag was found
  false.\<close>

definition capture_iter ::
  "iter_env \<Rightarrow> string \<Rightarrow> vstate \<Rightarrow> locals \<Rightarrow> iter_result \<times> vstate \<times> locals" where
  "capture_iter env url s l =
     (case running s url of
        None \<Rightarrow> (Raised KeyError, s, l)
      | Some False \<Rightarrow> (Stopped, s, l)
      | Some True \<Rightarrow> capture_rest env url s l)"

text \<open>The \<^verbatim>\<open>finally\<close> block (lines 195-201).\<close>

definition capture_finally :: "locals \<Rightarrow> vstate \<Rightarrow> vstate" where
  "capture_finally l s = s\<lparr>ffmpeg_live := ffmpeg_live s - {ffmpeg_process l}\<rparr>"

text \<open>\<^verbatim>\<open>rtmp_url.split('/')[-1]\<close> and the path of the playlist (lines 128-130).\<close>

definition last_segment :: "string \<Rightarrow> string" where
  "last_segment url = rev (takeWhile (\<lambda>c. c \<noteq> CHR ''/'') (rev url))"

definition hls_output_path :: "string \<Rightarrow> string" where
  "hls_output_path url = video_clip_dir @ ''/'' @ last_segment url @ ''_hls'' @ ''/index.m3u8''"

text \<open>Lines 121-159.  A missing configuration raises before the \<^verbatim>\<open>try\<close> and ends the
  thread; a \<^verbatim>\<open>Popen\<close> that fails is caught at line 193 and the \<^verbatim>\<open>finally\<close> block has no
  process to end.\<close>

definition capture_loop_begin :: "begin_env \<Rightarrow> string \<Rightarrow> vstate \<Rightarrow> tstate \<times> vstate" where
  "capture_loop_begin benv url s =
     (case configs s url of
        None \<Rightarrow> (Done, s)
      | Some c \<Rightarrow>
          if b_popen benv
          then (InLoop \<lparr>reconnect_start_time = None, reconnect_attempts = 0,
                        last_frame_time = b_time1 benv,
                        video_clip_start_time = b_time2 benv,
                        hls_output = hls_output_path url,
                        ffmpeg_process = next_pid s\<rparr>,
                s\<lparr>ffmpeg_live := insert (next_pid s) (ffmpeg_live s),
                  next_pid := Suc (next_pid s)\<rparr>)
          else (Done, s))"

text \<open>The test of line 161 alone: a thread at the head of its loop that finds the run
  flag set is inside an iteration from then on.  Another caller that runs now finds the
  thread there.\<close>

definition thread_enter :: "nat \<Rightarrow> vstate \<Rightarrow> vstate" where
  "thread_enter tid s =
     (if tid < length (threads s) then
        (let t = threads s ! tid in
         case t_state t of
           InLoop l \<Rightarrow>
             if running s (t_url t) = Some True
             then s\<lparr>threads := (threads s)[tid := t\<lparr>t_state := InBody l\<rparr>]\<rparr>
             else s
         | _ \<Rightarrow> s)
      else s)"

text \<open>One scheduling step of a capture thread: lines 121-159 for a thread that has not
  begun; the test of line 161 and the iteration it lets in for a thread at the head of
  its loop; the rest of the iteration (lines 162-191) for a thread inside one.  The
  thread is \<open>Done\<close> after the \<^verbatim>\<open>finally\<close> block.  The directory made at line 129 and
  the thread that copies the subprocess's error output to the log (lines 154-159) write
  nothing the service reads and are left out.\<close>

definition thread_step :: "begin_env \<Rightarrow> iter_env \<Rightarrow> nat \<Rightarrow> vstate \<Rightarrow> vstate" where
  "thread_step benv env tid s =
     (if tid < length (threads s) then
        (let t = threads s ! tid in
         case t_state t of
           Done \<Rightarrow> s
         | Ready \<Rightarrow>
             (case capture_loop_begin benv (t_url t) s of
                (st, s1) \<Rightarrow> s1\<lparr>threads := (threads s1)[tid := t\<lparr>t_state := st\<rparr>]\<rparr>)
         | InLoop l \<Rightarrow>
             (case capture_iter env (t_url t) s l of
                (Continue, s1, l1) \<Rightarrow>
                  s1\<lparr>threads := (threads s1)[tid := t\<lparr>t_state := InLoop l1\<rparr>]\<rparr>
              | (r, s1, l1) \<Rightarrow>
                  (let s2 = capture_finally l1 s1
                   in s2\<lparr>threads := (threads s2)[tid := t\<lparr>t_state := Done\<rparr>]\<rparr>))
         | InBody l \<Rightarrow>
             (case capture_rest env (t_url t) s l of
                (Continue, s1, l1) \<Rightarrow>
                  s1\<lparr>threads := (threads s1)[tid := t\<lparr>t_state := InLoop l1\<rparr>]\<rparr>
              | (r, s1, l1) \<Rightarrow>
                  (let s2 = capture_finally l1 s1
                   in s2\<lparr>threads := (threads s2)[tid := t\<lparr>t_state := Done\<rparr>]\<rparr>)))
      else s)"

text \<open>\<^verbatim>\<open>Thread.join()\<close> as \<^verbatim>\<open>stop_server\<close> uses it, after it has cleared the run flag.
  A thread that has not begun runs lines 121-159, and a thread inside an iteration runs
  the rest of it (lines 162-191, with its reconnect and its escalation test) and may
  return from there; a thread at the head of its loop finds the flag false and returns
  through the \<^verbatim>\<open>finally\<close> block.  Two steps bring every thread there.\<close>

definition join :: "begin_env \<Rightarrow> iter_env \<Rightarrow> nat \<Rightarrow> vstate \<Rightarrow> vstate" where
  "join benv env tid s = thread_step benv env tid (thread_step benv env tid s)"

text \<open>The loop over a list of iterations, each with what it reads from outside; it
  ends with the first iteration that does not continue.\<close>

fun capture_run ::
  "iter_env list \<Rightarrow> string \<Rightarrow> vstate \<Rightarrow> locals \<Rightarrow> iter_result \<times> vstate \<times> locals" where
  "capture_run [] url s l = (Continue, s, l)"
| "capture_run (env # envs) url s l =
     (case capture_iter env url s l of
        (Continue, s1, l1) \<Rightarrow> capture_run envs url s1 l1
      | (r, s1, l1) \<Rightarrow> (r, s1, l1))"

section \<open>Starting, stopping, status\<close>

text \<open>\<^verbatim>\<open>rtmp_url in self.running and self.running[rtmp_url]\<close> (lines 59 and 80).\<close>

definition is_running :: "string \<Rightarrow> vstate \<Rightarrow> bool" where
  "is_running url s = (case running s url of Some b \<Rightarrow> b | None \<Rightarrow> False)"

text \<open>Lines 62-77 of \<^verbatim>\<open>start_server\<close>, after the test of line 59.\<close>

definition start_commit ::
  "config \<Rightarrow> bool \<Rightarrow> string \<Rightarrow> vstate \<Rightarrow> (py_error + bool \<times> string) \<times> vstate" where
  "start_commit dflt opens url s =
     (case get_or_create dflt url (vcc_table s) of
        Inl e \<Rightarrow> (Inl e, s)
      | Inr (c, created, tbl) \<Rightarrow>
          (let c1 = (if created then c\<lparr>name := ''Config_'' @ str_nat (config_id c)\<rparr> else c);
               tbl1 = (if created then save_row c1 tbl else tbl);
               c2 = c1\<lparr>is_active := True\<rparr>;
               s1 = s\<lparr>configs := (configs s)(url \<mapsto> c2),
                      running := (running s)(url \<mapsto> True),
                      vcc_table := save_row c2 tbl1\<rparr>;
               s2 = initialize_capture opens url s1;
               tid = length (threads s2)
           in (Inr (True, ''Server started successfully''),
               s2\<lparr>threads := threads s2 @ [\<lparr>t_url = url, t_state = Ready\<rparr>],
                  capture_threads := (capture_threads s2)(url \<mapsto> tid)\<rparr>)))"

definition start_server ::
  "config \<Rightarrow> bool \<Rightarrow> string \<Rightarrow> vstate \<Rightarrow> (py_error + bool \<times> string) \<times> vstate" where
  "start_server dflt opens url s =
     (if is_running url s then (Inr (False, ''Server already running''), s)
      else start_commit dflt opens url s)"

text \<open>Lines 92-99 of \<^verbatim>\<open>stop_server\<close>.\<close>

definition stop_deactivate :: "string \<Rightarrow> vstate \<Rightarrow> (py_error + bool \<times> string) \<times> vstate" where
  "stop_deactivate url s =
     (case configs s url of
        None \<Rightarrow> (Inl KeyError, s)
      | Some c \<Rightarrow>
          (let c' = c\<lparr>is_active := False\<rparr>;
               s1 = s\<lparr>configs := (configs s)(url \<mapsto> c'),
                      vcc_table := save_row c' (vcc_table s)\<rparr>
           in (Inr (True, ''Server stopped successfully''),
               s1\<lparr>redis := (redis s1)(redis_key url := None)\<rparr>)))"

text \<open>Lines 88-99: \<^verbatim>\<open>self.caps[rtmp_url].release()\<close> is called on whatever the entry
  holds, so an entry that holds \<^verbatim>\<open>None\<close> raises \<^verbatim>\<open>AttributeError\<close>.\<close>

definition stop_release :: "string \<Rightarrow> vstate \<Rightarrow> (py_error + bool \<times> string) \<times> vstate" where
  "stop_release url s =
     (case caps s url of
        None \<Rightarrow> stop_deactivate url s
      | Some None \<Rightarrow> (Inl AttributeError, s)
      | Some (Some h) \<Rightarrow>
          (let s1 = release h s
           in stop_deactivate url (s1\<lparr>caps := (caps s1)(url := None)\<rparr>)))"

text \<open>\<^verbatim>\<open>stop_server\<close> (lines 79-99).\<close>

definition stop_server ::
  "begin_env \<Rightarrow> iter_env \<Rightarrow> string \<Rightarrow> vstate \<Rightarrow> (py_error + bool \<times> string) \<times> vstate" where
  "stop_server benv env url s =
     (if \<not> is_running url s then (Inr (False, ''Server not running''), s)
      else
        (let s1 = s\<lparr>running := (running s)(url \<mapsto> False)\<rparr> in
         case capture_threads s1 url of
           None \<Rightarrow> stop_release url s1
         | Some tid \<Rightarrow>
             (let s2 = join benv env tid s1 in
              case capture_threads s2 url of
                None \<Rightarrow> (Inl KeyError, s2)
              | Some _ \<Rightarrow>
                  stop_release url (s2\<lparr>capture_threads := (capture_threads s2)(url := None)\<rparr>))))"

text \<open>\<^verbatim>\<open>check_server_status\<close> (lines 101-103).\<close>

definition check_server_status :: "string \<Rightarrow> vstate \<Rightarrow> bool" where
  "check_server_status url s = (case running s url of Some b \<Rightarrow> b | None \<Rightarrow> False)"

text \<open>\<^verbatim>\<open>__init__\<close> (lines 18-33) when no configuration is stored yet: every dictionary
  and table is empty and no resource is held.\<close>

definition init_service :: vstate where
  "init_service =
     \<lparr>configs = Map.empty, caps = Map.empty, running = Map.empty,
      capture_threads = Map.empty, redis = Map.empty, vcc_table = [], clip_table = [],
      open_caps = {}, next_cap = 0, threads = [], ffmpeg_live = {}, next_pid = 0,
      sleep_log = []\<rparr>"

section \<open>Two callers of \<^verbatim>\<open>start_server\<close>\<close>

text \<open>
  \<^verbatim>\<open>start_server\<close> takes no lock.  A call is at the test of line 59, or past it and
  before lines 62-77, or it has returned; between the two steps another caller may run
  (line 62 is a database query).  A schedule says which of two callers moves next:
  \<open>False\<close> the first, \<open>True\<close> the second.
\<close>

datatype start_pc = AtCheck | AtCommit | Returned "py_error + bool \<times> string"

definition start_step ::
  "config \<Rightarrow> bool \<Rightarrow> string \<Rightarrow> start_pc \<Rightarrow> vstate \<Rightarrow> start_pc \<times> vstate" where
  "start_step dflt opens url pc s =
     (case pc of
        AtCheck \<Rightarrow>
          if is_running url s then (Returned (Inr (False, ''Server already running'')), s)
          else (AtCommit, s)
      | AtCommit \<Rightarrow> (case start_commit dflt opens url s of (r, s1) \<Rightarrow> (Returned r, s1))
      | Returned r \<Rightarrow> (Returned r, s))"

fun run_starts ::
  "config \<Rightarrow> bool \<Rightarrow> string \<Rightarrow> bool list \<Rightarrow> start_pc \<times> start_pc \<times> vstate
     \<Rightarrow> start_pc \<times> start_pc \<times> vstate" where
  "run_starts dflt opens url [] st = st"
| "run_starts dflt opens url (second # sched) (pc1, pc2, s) =
     (if second
      then (case start_step dflt opens url pc2 s of
              (pc2', s1) \<Rightarrow> run_starts dflt opens url sched (pc1, pc2', s1))
      else (case start_step dflt opens url pc1 s of
              (pc1', s1) \<Rightarrow> run_starts dflt opens url sched (pc1', pc2, s1)))"

text \<open>The capture threads of a stream that have not returned.\<close>

definition live_threads :: "string \<Rightarrow> vstate \<Rightarrow> thread list" where
  "live_threads url s = filter (\<lambda>t. t_url t = url \<and> t_state t \<noteq> Done) (threads s)"

section \<open>The detection service\<close>

text \<open>
  Modelled from the spec: the rows of \<^verbatim>\<open>EntityType\<close>, \<^verbatim>\<open>KeyFrame\<close> and
  \<^verbatim>\<open>DetectedObject\<close> (\<^verbatim>\<open>models.py\<close> of the detection server is not among the
  sources), with the fields the service names.
\<close>

record entity_type =
  et_code :: string
  et_type_name :: string

record key_frame =
  kf_id :: nat
  frame_time :: real
  frame_index :: nat

record detected_object =
  do_frame :: nat
  do_entity_type :: entity_type
  specific_type :: string
  confidence_score :: real
  bounding_box :: "int \<times> int \<times> int \<times> int"
  segmentation :: "int list"
  re_id :: int

text \<open>The dictionary that \<^verbatim>\<open>_detect_objects\<close> returns in a list.\<close>

record detection =
  det_x :: int
  det_y :: int
  det_width :: int
  det_height :: int
  det_entity_type :: string

text \<open>\<^verbatim>\<open>ObjectDetectService\<close>: its dictionaries (\<open>entity_types\<close> in insertion order, as
  \<^verbatim>\<open>list(self.entity_types.keys())\<close> reads it), the store, and the three tables.\<close>

record dstate =
  od_configs :: "string \<rightharpoonup> config"
  od_running :: "string \<rightharpoonup> bool"
  detect_threads :: "string \<rightharpoonup> nat"
  entity_types :: "(string \<times> entity_type) list"
  od_redis :: "string \<rightharpoonup> bytes"
  key_frame_table :: "key_frame list"
  detected_object_table :: "detected_object list"
  entity_type_table :: "entity_type list"
  od_sleep_log :: "real list"

text \<open>What one iteration of the detection loop reads from outside: the clock, and the
  five random draws of \<^verbatim>\<open>_detect_objects\<close>, each a natural number that the
  generator reduces into the range asked for.\<close>

record detect_env =
  d_now :: real
  d_choice :: nat
  d_x :: nat
  d_y :: nat
  d_w :: nat
  d_h :: nat

text \<open>\<^verbatim>\<open>np.random.randint(low, high)\<close> draws from \<open>low \<le> n < high\<close> and raises
  \<^verbatim>\<open>ValueError\<close> when that range is empty; \<^verbatim>\<open>np.random.choice\<close> raises it on an
  empty list.\<close>

definition randint :: "int \<Rightarrow> int \<Rightarrow> nat \<Rightarrow> py_error + int" where
  "randint low high r =
     (if low \<ge> high then Inl ValueError else Inr (low + int r mod (high - low)))"

definition random_choice :: "'a list \<Rightarrow> nat \<Rightarrow> py_error + 'a" where
  "random_choice xs r =
     (if xs = [] then Inl ValueError else Inr (xs ! (r mod length xs)))"

text \<open>\<^verbatim>\<open>_detect_objects\<close> (lines 140-150).  The frame is \<open>None\<close> when
  \<^verbatim>\<open>cv2.imdecode\<close> could not decode the bytes; \<^verbatim>\<open>frame.shape\<close> then raises.\<close>

definition detect_objects ::
  "dstate \<Rightarrow> frame option \<Rightarrow> detect_env \<Rightarrow> py_error + detection list" where
  "detect_objects s fr env =
     (case random_choice (map fst (entity_types s)) (d_choice env) of
        Inl e \<Rightarrow> Inl e
      | Inr entity \<Rightarrow>
     (case fr of
        None \<Rightarrow> Inl AttributeError
      | Some f \<Rightarrow>
     (case randint 0 (frame_width f - 50) (d_x env) of
        Inl e \<Rightarrow> Inl e
      | Inr x \<Rightarrow>
     (case randint 0 (frame_height f - 50) (d_y env) of
        Inl e \<Rightarrow> Inl e
      | Inr y \<Rightarrow>
     (case randint 50 (min 100 (frame_width f - x)) (d_w env) of
        Inl e \<Rightarrow> Inl e
      | Inr w \<Rightarrow>
     (case randint 50 (min 100 (frame_height f - y)) (d_h env) of
        Inl e \<Rightarrow> Inl e
      | Inr h \<Rightarrow>
          Inr [\<lparr>det_x = x, det_y = y, det_width = w, det_height = h,
                det_entity_type = entity\<rparr>]))))))"

text \<open>\<^verbatim>\<open>EntityType.objects.get_or_create(type_name=t)\<close>; \<open>dflt\<close> holds the defaults
  of the other fields.\<close>

definition et_get_or_create ::
  "entity_type \<Rightarrow> string \<Rightarrow> entity_type list \<Rightarrow> py_error + (entity_type \<times> entity_type list)" where
  "et_get_or_create dflt t tbl =
     (case filter (\<lambda>r. et_type_name r = t) tbl of
        [] \<Rightarrow> (let r = dflt\<lparr>et_type_name := t\<rparr> in Inr (r, tbl @ [r]))
      | [r] \<Rightarrow> Inr (r, tbl)
      | _ \<Rightarrow> Inl MultipleObjectsReturned)"

text \<open>The \<^verbatim>\<open>for\<close> loop of lines 121-136.  Each pass looks the entity type up (and
  stores it when it is new) and builds a \<^verbatim>\<open>DetectedObject\<close> in memory.  No pass
  calls \<^verbatim>\<open>save\<close> or appends to \<^verbatim>\<open>detected_object_instances\<close>: the objects built
  are the second component here, and the table of detected objects is never written.\<close>

fun build_objects ::
  "entity_type \<Rightarrow> key_frame \<Rightarrow> detection list \<Rightarrow> dstate
     \<Rightarrow> py_error option \<times> detected_object list \<times> dstate" where
  "build_objects dflt kf [] s = (None, [], s)"
| "build_objects dflt kf (obj # objs) s =
     (case et_get_or_create dflt (det_entity_type obj) (entity_type_table s) of
        Inl e \<Rightarrow> (Some e, [], s)
      | Inr (et, tbl) \<Rightarrow>
          (let detected =
                 \<lparr>do_frame = kf_id kf, do_entity_type = et,
                  specific_type = det_entity_type obj, confidence_score = 1,
                  bounding_box = (det_x obj, det_y obj, det_width obj, det_height obj),
                  segmentation = [], re_id = - 1\<rparr>
           in case build_objects dflt kf objs (s\<lparr>entity_type_table := tbl\<rparr>) of
                (err, built, s1) \<Rightarrow> (err, detected # built, s1)))"

text \<open>\<^verbatim>\<open>_process_frame\<close> (lines 109-138).  The result lists the detections of the
  detector and the objects built from them.\<close>

definition process_frame ::
  "entity_type \<Rightarrow> detect_env \<Rightarrow> string \<Rightarrow> frame option \<Rightarrow> dstate
     \<Rightarrow> py_error option \<times> detection list \<times> detected_object list \<times> dstate" where
  "process_frame dflt env url fr s =
     (let kf = \<lparr>kf_id = Suc (length (key_frame_table s)), frame_time = d_now env,
                frame_index = 0\<rparr>;
          s1 = s\<lparr>key_frame_table := key_frame_table s @ [kf]\<rparr>
      in case detect_objects s1 fr env of
           Inl e \<Rightarrow> (Some e, [], [], s1)
         | Inr detected_objects \<Rightarrow>
             (case build_objects dflt kf detected_objects s1 of
                (err, built, s2) \<Rightarrow> (err, detected_objects, built, s2)))"

text \<open>\<^verbatim>\<open>time.sleep\<close> raises \<^verbatim>\<open>ValueError\<close> on a negative length.\<close>

definition od_sleep :: "real \<Rightarrow> dstate \<Rightarrow> iter_result \<times> dstate" where
  "od_sleep d s =
     (if d < 0 then (Raised ValueError, s)
      else (Continue, s\<lparr>od_sleep_log := od_sleep_log s @ [d]\<rparr>))"

text \<open>One pass through line 101 and the body of \<^verbatim>\<open>_detect_loop\<close> (lines 101-106).
  \<^verbatim>\<open>if frame_bytes\<close> is false for a missing key and for an empty value; \<open>imdecode\<close>
  stands for the decoder of OpenCV.  Nothing catches an exception here: it ends the
  loop.\<close>

definition detect_iter ::
  "(bytes \<Rightarrow> frame option) \<Rightarrow> entity_type \<Rightarrow> detect_env \<Rightarrow> string \<Rightarrow> dstate
     \<Rightarrow> iter_result \<times> dstate" where
  "detect_iter imdecode dflt env url s =
     (case od_running s url of
        None \<Rightarrow> (Raised KeyError, s)
      | Some False \<Rightarrow> (Stopped, s)
      | Some True \<Rightarrow>
          (let frame_bytes = od_redis s (redis_key url);
               (err, s1) =
                 (case frame_bytes of
                    None \<Rightarrow> (None, s)
                  | Some b \<Rightarrow>
                      if b = [] then (None, s)
                      else (case process_frame dflt env url (imdecode b) s of
                              (e, dets, built, s') \<Rightarrow> (e, s')))
           in case err of
                Some e \<Rightarrow> (Raised e, s1)
              | None \<Rightarrow>
                  (case od_configs s1 url of
                     None \<Rightarrow> (Raised KeyError, s1)
                   | Some c \<Rightarrow> od_sleep (frame_interval c) s1)))"

text \<open>\<^verbatim>\<open>ObjectDetectService.__init__\<close> (lines 17-25) when no configuration is active and
  \<^verbatim>\<open>_load_entity_types\<close> has ended in its \<^verbatim>\<open>except\<close> branch (line 53), which leaves
  \<open>entity_types\<close> empty.\<close>

definition init_detect :: dstate where
  "init_detect =
     \<lparr>od_configs = Map.empty, od_running = Map.empty, detect_threads = Map.empty,
      entity_types = [], od_redis = Map.empty, key_frame_table = [],
      detected_object_table = [], entity_type_table = [], od_sleep_log = []\<rparr>"

section \<open>Concrete states and inputs\<close>

text \<open>The states and inputs at which the theorems below are instantiated.  The field
  defaults of a configuration, and a stream \<^verbatim>\<open>cam1\<close> whose capture thread is at the
  head of its loop with an open decode handle and a live segmenting process.\<close>

definition example_defaults :: config where
  "example_defaults =
     \<lparr>config_id = 0, name = '''', rtmp_url = '''', is_active = False, frame_interval = 2\<rparr>"

definition example_begin :: begin_env where
  "example_begin = \<lparr>b_time1 = 0, b_time2 = 0, b_popen = True\<rparr>"

definition example_locals :: locals where
  "example_locals =
     \<lparr>reconnect_start_time = None, reconnect_attempts = 0, last_frame_time = 0,
      video_clip_start_time = 0, hls_output = ''tmp/video_clip/cam1_hls/index.m3u8'',
      ffmpeg_process = 0\<rparr>"

definition example_config :: config where
  "example_config =
     \<lparr>config_id = 1, name = ''Config_1'', rtmp_url = ''cam1'', is_active = True,
      frame_interval = 2\<rparr>"

definition example_loop :: vstate where
  "example_loop =
     \<lparr>configs = [''cam1'' \<mapsto> example_config], caps = [''cam1'' \<mapsto> Some 0],
      running = [''cam1'' \<mapsto> True], capture_threads = [''cam1'' \<mapsto> 0],
      redis = Map.empty, vcc_table = [example_config], clip_table = [],
      open_caps = {0}, next_cap = 1,
      threads = [\<lparr>t_url = ''cam1'', t_state = InLoop example_locals\<rparr>],
      ffmpeg_live = {0}, next_pid = 1, sleep_log = []\<rparr>"

text \<open>An iteration whose read fails at time \<open>t\<close>, whose reconnect opens the source
  again, and whose escalation test reads the clock at \<open>t'\<close>.\<close>

definition stall_env :: "real \<Rightarrow> real \<Rightarrow> iter_env" where
  "stall_env t t' =
     \<lparr>e_read = None, e_time = t, e_reopen = True, e_check = t', e_now1 = t', e_now2 = t'\<rparr>"

text \<open>An iteration whose read returns a frame at time \<open>t\<close>; a clip record written in
  it reads the clock at \<open>n1\<close> and at \<open>n2\<close>.\<close>

definition read_env :: "real \<Rightarrow> real \<Rightarrow> real \<Rightarrow> iter_env" where
  "read_env t n1 n2 =
     \<lparr>e_read = Some (Frame 480 640 [7]), e_time = t, e_reopen = True, e_check = n2,
      e_now1 = n1, e_now2 = n2\<rparr>"

text \<open>The detection service with \<^verbatim>\<open>cam1\<close> running and one entity type loaded.\<close>

definition example_entity :: entity_type where
  "example_entity = \<lparr>et_code = ''person'', et_type_name = ''person''\<rparr>"

definition example_detect :: dstate where
  "example_detect =
     init_detect\<lparr>od_configs := [''cam1'' \<mapsto> example_config],
                 od_running := [''cam1'' \<mapsto> True],
                 entity_types := [(''person'', example_entity)],
                 entity_type_table := [example_entity]\<rparr>"

definition example_draws :: detect_env where
  "example_draws = \<lparr>d_now = 100, d_choice = 0, d_x = 10, d_y = 20, d_w = 5, d_h = 6\<rparr>"

definition example_decode :: "bytes \<Rightarrow> frame option" where
  "example_decode b = Some (Frame 480 640 b)"

text \<open>The state and the local variables of \<^verbatim>\<open>cam1\<close> after one stalled iteration (read
  failed at time 2, reconnect opened the source again).\<close>

definition example_stalled :: vstate where
  "example_stalled =
     example_loop\<lparr>caps := [''cam1'' \<mapsto> Some 1], open_caps := {1}, next_cap := 2,
                  sleep_log := [1]\<rparr>"

definition example_stalled_locals :: locals where
  "example_stalled_locals =
     example_locals\<lparr>reconnect_start_time := Some 2, reconnect_attempts := 1\<rparr>"

text \<open>The service after \<^verbatim>\<open>start_server('cam2')\<close> on a source that does not open.\<close>

definition example_unopened :: vstate where
  "example_unopened = snd (start_server example_defaults False ''cam2'' init_service)"


text \<open>The service while the thread of \<^verbatim>\<open>cam1\<close> is inside an iteration.\<close>

definition example_in_body :: vstate where
  "example_in_body = thread_enter 0 example_loop"


section \<open>What the loop body leaves alone\<close>

lemmas eval_defs =
  thread_step_def thread_enter_def capture_loop_begin_def capture_iter_def capture_rest_def
  capture_body_def capture_check_def round_half_even_def timedelta_seconds_def
  capture_finally_def cap_is_opened_def reconnect_def initialize_capture_def release_def
  note_reconnect_def set_inactive_def save_video_clip_metadata_def save_row_def
  max_reconnect_attempts_def reconnect_timeout_def video_clip_duration_def Let_def

lemmas example_defs =
  example_loop_def example_locals_def example_config_def example_stalled_def
  example_stalled_locals_def stall_env_def read_env_def example_begin_def

lemmas start_defs =
  start_server_def start_commit_def is_running_def get_or_create_def new_id_def
  stop_server_def stop_release_def stop_deactivate_def join_def start_step_def
  live_threads_def init_service_def example_defaults_def redis_key_def
  hls_output_path_def last_segment_def video_clip_dir_def

lemma str_nat_1: "str_nat (Suc 0) = ''1''"
  by (simp add: str_nat.simps)

text \<open>The concrete state \<open>example_loop\<close> is the one the service reaches from its
  initial state by \<^verbatim>\<open>start_server('cam1')\<close> and the first step of the new thread.\<close>

lemma example_loop_reached:
  "thread_step example_begin env 0
     (snd (start_server example_defaults True ''cam1'' init_service)) = example_loop"
  by (simp add: thread_step_def capture_loop_begin_def start_server_def start_commit_def
      is_running_def get_or_create_def new_id_def save_row_def initialize_capture_def
      release_def init_service_def example_defaults_def example_begin_def example_loop_def
      example_config_def example_locals_def hls_output_path_def last_segment_def
      video_clip_dir_def str_nat_1 Let_def)


lemma capture_body_frame:
  assumes "capture_body env url s l = (err, s1, l1)"
  shows "configs s1 = configs s \<and> vcc_table s1 = vcc_table s \<and> redis s1 = redis s
         \<and> running s1 = running s \<and> threads s1 = threads s
         \<and> ffmpeg_live s1 = ffmpeg_live s \<and> capture_threads s1 = capture_threads s
         \<and> ffmpeg_process l1 = ffmpeg_process l"
  using assms
  by (auto simp: capture_body_def reconnect_def initialize_capture_def release_def
      save_video_clip_metadata_def note_reconnect_def Let_def
      split: option.splits if_splits prod.splits)

lemma capture_body_error:
  assumes "capture_body env url s l = (Some e, s1, l1)"
  shows "reconnect_start_time l1 = None \<and> configs s url = None"
  using assms
  by (auto simp: capture_body_def save_video_clip_metadata_def Let_def
      split: option.splits if_splits prod.splits)

lemma save_row_mem: "c \<in> set (save_row c tbl)"
  by (auto simp: save_row_def)

lemma save_row_same_id:
  assumes "r \<in> set (save_row c tbl)" and "config_id r = config_id c"
  shows "r = c"
proof (cases "config_id c \<in> set (map config_id tbl)")
  case True
  with assms show ?thesis by (auto simp: save_row_def split: if_splits)
next
  case False
  then have "r \<in> set tbl \<or> r = c"
    using assms by (auto simp: save_row_def)
  moreover have "r \<notin> set tbl"
  proof
    assume "r \<in> set tbl"
    then have "config_id r \<in> set (map config_id tbl)"
      by simp
    then show False
      using False assms(2) by simp
  qed
  ultimately show ?thesis by simp
qed

lemma example_stall_body:
  "capture_body (stall_env 2 8) ''cam1'' example_loop example_locals =
     (None,
      example_loop\<lparr>caps := [''cam1'' \<mapsto> Some 1], open_caps := {1}, next_cap := 2,
                   sleep_log := [1]\<rparr>,
      example_locals\<lparr>reconnect_start_time := Some 2, reconnect_attempts := 1\<rparr>)"
  by (simp add: capture_body_def cap_is_opened_def reconnect_def initialize_capture_def
      release_def note_reconnect_def stall_env_def example_loop_def example_locals_def Let_def)

section \<open>Starting a stream twice\<close>





text \<open>The schedule in which the first caller runs both its steps before the second
  moves is \<^verbatim>\<open>start_server\<close> itself.\<close>

lemma start_server_two_steps:
  "run_starts dflt opens url [False, False] (AtCheck, pc2, s) =
     (Returned (fst (start_server dflt opens url s)), pc2, snd (start_server dflt opens url s))"
  by (simp add: start_step_def start_server_def split: prod.splits)

section \<open>Publishing frames\<close>

text \<open>
  C2, at an iteration of the loop of \<^verbatim>\<open>cam1\<close> whose read returns a frame.  The
  iteration ends normally and the store is as before: no value stands under
  \<^verbatim>\<open>video_cap_service:current_image:cam1\<close>.  \<^verbatim>\<open>update_frame\<close>, which would write
  the encoded frame there, is not called by the loop.
\<close>

theorem read_publishes_no_frame:
  "cap_is_opened ''cam1'' example_loop
   \<and> e_read (read_env 1 1 1) = Some (Frame 480 640 [7])
   \<and> capture_iter (read_env 1 1 1) ''cam1'' example_loop example_locals =
       (Continue, example_loop, example_locals\<lparr>last_frame_time := 1\<rparr>)
   \<and> redis example_loop (redis_key ''cam1'') = None
   \<and> redis (update_frame frame_pixels ''cam1'' (Some (Frame 480 640 [7])) example_loop)
        (redis_key ''cam1'') = Some [7]"
  by (simp add: eval_defs example_defs update_frame_def)

section \<open>Escalation: the reconnect budget\<close>

text \<open>
  C4.  Take an iteration of a running capture loop after whose body the loop is stalled
  or reconnecting (\<open>reconnect_start_time\<close> is set).  If the clock read at line 188 is
  more than the reconnect timeout past \<open>reconnect_start_time\<close>, or
  \<open>reconnect_attempts\<close> is above the maximum, the loop ends in this iteration: the
  thread has returned, its segmenting process is no longer alive, the configuration is
  inactive in the service and in the table, the decode handle of the stream is released
  and its entry is \<^verbatim>\<open>None\<close>, the key of the stream is not in the store, and the status
  is not-running.
\<close>

theorem reconnect_exhausted_terminates:
  assumes tid: "tid < length (threads s)"
      and th: "threads s ! tid = \<lparr>t_url = url, t_state = InLoop l\<rparr>"
      and run: "running s url = Some True"
      and cfg: "configs s url = Some c"
      and body: "capture_body env url s l = (err, s1, l1)"
      and stalled: "reconnect_start_time l1 = Some t0"
      and exhausted: "e_check env - t0 > reconnect_timeout
                      \<or> reconnect_attempts l1 > max_reconnect_attempts"
  shows "t_state (threads (thread_step benv env tid s) ! tid) = Done
         \<and> ffmpeg_process l \<notin> ffmpeg_live (thread_step benv env tid s)
         \<and> configs (thread_step benv env tid s) url = Some (c\<lparr>is_active := False\<rparr>)
         \<and> c\<lparr>is_active := False\<rparr> \<in> set (vcc_table (thread_step benv env tid s))
         \<and> (\<forall>r \<in> set (vcc_table (thread_step benv env tid s)).
               config_id r = config_id c \<longrightarrow> \<not> is_active r)
         \<and> caps (thread_step benv env tid s) url = Some None
         \<and> (\<forall>h. caps s1 url = Some (Some h) \<longrightarrow> h \<notin> open_caps (thread_step benv env tid s))
         \<and> redis (thread_step benv env tid s) (redis_key url) = None
         \<and> running (thread_step benv env tid s) url = Some False
         \<and> \<not> check_server_status url (thread_step benv env tid s)"
proof -
  have noerr: "err = None"
    using capture_body_error body stalled by (cases err) auto
  note fr = capture_body_frame [OF body]
  have cfg1: "configs s1 url = Some c"
    using fr cfg by simp
  define c' where "c' = c\<lparr>is_active := False\<rparr>"
  define s2 where "s2 = s1\<lparr>configs := (configs s1)(url \<mapsto> c'),
                          vcc_table := save_row c' (vcc_table s1),
                          running := (running s1)(url \<mapsto> False),
                          open_caps := (case caps s1 url of Some (Some h) \<Rightarrow> open_caps s1 - {h} | _ \<Rightarrow> open_caps s1),
                          caps := (caps s1)(url \<mapsto> None),
                          capture_threads := (capture_threads s1)(url := None),
                          redis := (redis s1)(redis_key url := None)\<rparr>"
  have si: "set_inactive url s1 = (None, s2)"
    using cfg1 by (simp add: set_inactive_def s2_def c'_def release_def Let_def split: option.splits)
  have chk: "capture_check env url s1 l1 = (Break, s2)"
    using stalled exhausted si by (simp add: capture_check_def Let_def)
  have it: "capture_iter env url s l = (Break, s2, l1)"
    using run body noerr chk by (simp add: capture_iter_def capture_rest_def)
  have step: "thread_step benv env tid s =
      (capture_finally l1 s2)\<lparr>threads := (threads (capture_finally l1 s2))
          [tid := \<lparr>t_url = url, t_state = Done\<rparr>]\<rparr>"
    using tid th it by (simp add: thread_step_def Let_def)
  have len: "tid < length (threads (capture_finally l1 s2))"
    using tid fr by (simp add: capture_finally_def s2_def)
  have rows: "\<forall>r \<in> set (save_row c' (vcc_table s1)). config_id r = config_id c \<longrightarrow> \<not> is_active r"
  proof
    fix r assume "r \<in> set (save_row c' (vcc_table s1))"
    then show "config_id r = config_id c \<longrightarrow> \<not> is_active r"
      using save_row_same_id [of r c' "vcc_table s1"] by (auto simp: c'_def)
  qed
  show ?thesis
    unfolding step using len fr rows save_row_mem [of c' "vcc_table s1"]
    by (auto simp: capture_finally_def s2_def c'_def check_server_status_def split: option.splits)
qed

theorem reconnect_exhausted_terminates_witness:
  "0 < length (threads example_loop)
   \<and> threads example_loop ! 0 = \<lparr>t_url = ''cam1'', t_state = InLoop example_locals\<rparr>
   \<and> running example_loop ''cam1'' = Some True
   \<and> configs example_loop ''cam1'' = Some example_config
   \<and> reconnect_start_time (snd (snd (capture_body (stall_env 2 8) ''cam1'' example_loop example_locals))) = Some 2
   \<and> e_check (stall_env 2 8) - 2 > reconnect_timeout
   \<and> t_state (threads (thread_step example_begin (stall_env 2 8) 0 example_loop) ! 0) = Done
   \<and> ffmpeg_live (thread_step example_begin (stall_env 2 8) 0 example_loop) = {}
   \<and> vcc_table (thread_step example_begin (stall_env 2 8) 0 example_loop)
        = [example_config\<lparr>is_active := False\<rparr>]
   \<and> caps (thread_step example_begin (stall_env 2 8) 0 example_loop) ''cam1'' = Some None
   \<and> open_caps (thread_step example_begin (stall_env 2 8) 0 example_loop) = {}
   \<and> redis (thread_step example_begin (stall_env 2 8) 0 example_loop) (redis_key ''cam1'') = None
   \<and> \<not> check_server_status ''cam1'' (thread_step example_begin (stall_env 2 8) 0 example_loop)"
proof -
  have h1: "0 < length (threads example_loop)"
    by (simp add: example_loop_def)
  have h2: "threads example_loop ! 0 = \<lparr>t_url = ''cam1'', t_state = InLoop example_locals\<rparr>"
    by (simp add: example_loop_def)
  have h3: "running example_loop ''cam1'' = Some True"
    by (simp add: example_loop_def)
  have h4: "configs example_loop ''cam1'' = Some example_config"
    by (simp add: example_loop_def)
  have h6: "reconnect_start_time (example_locals\<lparr>reconnect_start_time := Some 2, reconnect_attempts := 1\<rparr>) = Some 2"
    by simp
  have h7: "e_check (stall_env 2 8) - 2 > reconnect_timeout
            \<or> reconnect_attempts (example_locals\<lparr>reconnect_start_time := Some 2, reconnect_attempts := 1\<rparr>)
               > max_reconnect_attempts"
    by (simp add: stall_env_def reconnect_timeout_def)
  note t = reconnect_exhausted_terminates [OF h1 h2 h3 h4 example_stall_body h6 h7, of example_begin]
  have ff: "ffmpeg_live (thread_step example_begin (stall_env 2 8) 0 example_loop) = {}"
    "open_caps (thread_step example_begin (stall_env 2 8) 0 example_loop) = {}"
    "vcc_table (thread_step example_begin (stall_env 2 8) 0 example_loop) = [example_config\<lparr>is_active := False\<rparr>]"
    by (simp_all add: eval_defs example_locals_def stall_env_def example_loop_def)
  have h5: "reconnect_start_time (snd (snd (capture_body (stall_env 2 8) ''cam1'' example_loop example_locals))) = Some 2"
    by (simp add: example_stall_body)
  have h8: "e_check (stall_env 2 8) - 2 > reconnect_timeout"
    by (simp add: stall_env_def reconnect_timeout_def)
  show ?thesis
    using t h1 h2 h3 h4 h5 h8 ff by simp
qed

section \<open>The reconnect attempt counter\<close>

text \<open>
  C5.  In every iteration of the capture loop the attempt counter ends at zero when a
  frame was read, and is not lowered otherwise, whether or not the iteration
  reconnected and whether or not the reconnect opened the source.
\<close>

theorem attempts_reset_only_by_read:
  assumes "capture_iter env url s l = (r, s', l')"
  shows "if running s url = Some True \<and> cap_is_opened url s \<and> e_read env \<noteq> None
         then reconnect_attempts l' = 0
         else reconnect_attempts l \<le> reconnect_attempts l'"
  using assms
  by (auto simp: capture_iter_def capture_rest_def capture_body_def capture_check_def
      note_reconnect_def
      save_video_clip_metadata_def Let_def
      split: option.splits if_splits prod.splits bool.splits)

lemma example_second_stall:
  "capture_iter (stall_env 4 5) ''cam1'' example_stalled example_stalled_locals =
     (Continue,
      example_stalled\<lparr>caps := [''cam1'' \<mapsto> Some 2], open_caps := {2}, next_cap := 3,
                      sleep_log := [1, 1]\<rparr>,
      example_stalled_locals)"
  by (simp add: eval_defs example_defs)

lemma example_read_after_stall:
  "capture_iter (read_env 4 4 4) ''cam1'' example_stalled example_stalled_locals =
     (Continue, example_stalled,
      example_stalled_locals\<lparr>last_frame_time := 4, reconnect_start_time := None,
                             reconnect_attempts := 0\<rparr>)"
  by (simp add: eval_defs example_defs)

theorem attempts_reset_only_by_read_witness:
  "capture_iter (stall_env 4 5) ''cam1'' example_stalled example_stalled_locals =
     (Continue,
      example_stalled\<lparr>caps := [''cam1'' \<mapsto> Some 2], open_caps := {2}, next_cap := 3,
                      sleep_log := [1, 1]\<rparr>,
      example_stalled_locals)
   \<and> cap_is_opened ''cam1''
        (example_stalled\<lparr>caps := [''cam1'' \<mapsto> Some 2], open_caps := {2}, next_cap := 3,
                        sleep_log := [1, 1]\<rparr>)
   \<and> e_read (stall_env 4 5) = None
   \<and> reconnect_attempts example_stalled_locals = 1
   \<and> reconnect_attempts example_stalled_locals \<le> reconnect_attempts example_stalled_locals
   \<and> capture_iter (read_env 4 4 4) ''cam1'' example_stalled example_stalled_locals =
     (Continue, example_stalled,
      example_stalled_locals\<lparr>last_frame_time := 4, reconnect_start_time := None,
                             reconnect_attempts := 0\<rparr>)
   \<and> reconnect_attempts
        (example_stalled_locals\<lparr>last_frame_time := 4, reconnect_start_time := None,
                               reconnect_attempts := 0\<rparr>) = 0"
  using attempts_reset_only_by_read [OF example_second_stall]
    attempts_reset_only_by_read [OF example_read_after_stall]
    example_second_stall example_read_after_stall
  by (simp add: cap_is_opened_def example_defs)

text \<open>The counter is raised only together with setting \<open>reconnect_start_time\<close>, so
  it never passes one and the test \<^verbatim>\<open>reconnect_attempts > self.max_reconnect_attempts\<close>
  of line 189 cannot hold in a loop that started with the counter at zero.\<close>

theorem attempts_at_most_one:
  assumes "capture_iter env url s l = (r, s', l')"
      and "reconnect_attempts l \<le> 1"
      and "reconnect_start_time l = None \<longrightarrow> reconnect_attempts l = 0"
  shows "reconnect_attempts l' \<le> 1
         \<and> (reconnect_start_time l' = None \<longrightarrow> reconnect_attempts l' = 0)"
  using assms
  by (auto simp: capture_iter_def capture_rest_def capture_body_def capture_check_def
      note_reconnect_def
      save_video_clip_metadata_def Let_def
      split: option.splits if_splits prod.splits bool.splits)

theorem attempts_at_most_one_witness:
  "capture_iter (stall_env 4 5) ''cam1'' example_stalled example_stalled_locals =
     (Continue,
      example_stalled\<lparr>caps := [''cam1'' \<mapsto> Some 2], open_caps := {2}, next_cap := 3,
                      sleep_log := [1, 1]\<rparr>,
      example_stalled_locals)
   \<and> reconnect_attempts example_stalled_locals \<le> 1
   \<and> reconnect_start_time example_stalled_locals \<noteq> None
   \<and> \<not> reconnect_attempts example_stalled_locals > max_reconnect_attempts"
proof -
  have a: "reconnect_attempts example_stalled_locals \<le> 1"
    by (simp add: example_stalled_locals_def)
  have b: "reconnect_start_time example_stalled_locals = None \<longrightarrow>
           reconnect_attempts example_stalled_locals = 0"
    by (simp add: example_stalled_locals_def)
  have c: "reconnect_start_time example_stalled_locals \<noteq> None"
    by (simp add: example_stalled_locals_def)
  show ?thesis
    using attempts_at_most_one [OF example_second_stall a b] example_second_stall c
    by (simp add: max_reconnect_attempts_def)
qed

text \<open>
  C6, at two stalled iterations in a row.  The first (read failed at time 2, more than
  one second after the last frame at time 0) sets \<open>reconnect_start_time\<close>, raises
  the counter to 1 and reconnects.  The second (handle present, read failed at time 4)
  reconnects again, as the two entries of the sleep log show, but leaves the counter
  at 1.
\<close>

theorem second_stall_keeps_attempts:
  "capture_iter (stall_env 2 3) ''cam1'' example_loop example_locals =
     (Continue, example_stalled, example_stalled_locals)
   \<and> reconnect_attempts example_stalled_locals = 1
   \<and> cap_is_opened ''cam1'' example_stalled
   \<and> e_read (stall_env 4 5) = None
   \<and> e_time (stall_env 4 5) - last_frame_time example_stalled_locals > 1
   \<and> fst (capture_iter (stall_env 4 5) ''cam1'' example_stalled example_stalled_locals) = Continue
   \<and> sleep_log (fst (snd (capture_iter (stall_env 4 5) ''cam1'' example_stalled
        example_stalled_locals))) = [1, 1]
   \<and> reconnect_attempts (snd (snd (capture_iter (stall_env 4 5) ''cam1'' example_stalled
        example_stalled_locals))) = 1"
  by (simp add: eval_defs example_defs)

section \<open>Stopping a stream\<close>

text \<open>
  C7, at a stream whose source did not open.  \<^verbatim>\<open>start_server('cam2')\<close> succeeds and
  leaves \<^verbatim>\<open>None\<close> in \<^verbatim>\<open>caps\<close>; a supervisor is running.  \<^verbatim>\<open>stop_server('cam2')\<close>
  then raises \<^verbatim>\<open>AttributeError\<close> at line 89, before lines 92-97: the configuration is
  still active in the table, while a second call reports not-running.
\<close>

theorem stop_raises_on_unopened_source:
  "fst (start_server example_defaults False ''cam2'' init_service) =
     Inr (True, ''Server started successfully'')
   \<and> is_running ''cam2'' example_unopened
   \<and> caps example_unopened ''cam2'' = Some None
   \<and> fst (stop_server example_begin (stall_env 0 0) ''cam2'' example_unopened) = Inl AttributeError
   \<and> map is_active (vcc_table (snd (stop_server example_begin (stall_env 0 0) ''cam2''
        example_unopened))) = [True]
   \<and> fst (stop_server example_begin (stall_env 0 0) ''cam2''
        (snd (stop_server example_begin (stall_env 0 0) ''cam2'' example_unopened))) =
       Inr (False, ''Server not running'')"
  by (simp add: example_unopened_def start_defs eval_defs example_defs str_nat_1)

text \<open>The branches of \<^verbatim>\<open>stop_server\<close> that do what the contract says.  With no
  supervisor running (never started, or ended by itself) the call reports not-running
  and the service is unchanged.\<close>

lemma stop_server_not_running:
  assumes "\<not> is_running url s"
  shows "stop_server benv env url s = (Inr (False, ''Server not running''), s)"
  using assms by (simp add: stop_server_def)

theorem stop_server_idle:
  assumes "\<not> is_running url s"
  shows "stop_server benv env url s = (Inr (False, ''Server not running''), s)"
  using assms by (simp add: stop_server_def)

theorem stop_server_idle_witness:
  "\<not> is_running ''cam2'' init_service
   \<and> stop_server example_begin (stall_env 0 0) ''cam2'' init_service =
       (Inr (False, ''Server not running''), init_service)
   \<and> \<not> is_running ''cam1'' (thread_step example_begin (stall_env 2 8) 0 example_loop)
   \<and> stop_server example_begin (stall_env 0 0) ''cam1''
         (thread_step example_begin (stall_env 2 8) 0 example_loop) =
       (Inr (False, ''Server not running''),
        thread_step example_begin (stall_env 2 8) 0 example_loop)"
proof -
  have a: "\<not> is_running ''cam2'' init_service"
    by (simp add: is_running_def init_service_def)
  have b: "\<not> is_running ''cam1'' (thread_step example_begin (stall_env 2 8) 0 example_loop)"
    by (simp add: is_running_def eval_defs example_defs)
  show ?thesis
    using a b stop_server_idle [OF a] stop_server_idle [OF b] by simp
qed

text \<open>A thread whose run flag is cleared and that is not inside an iteration has
  returned after \<open>join\<close>, and \<open>join\<close> touches nothing but the thread and its
  segmenting process.\<close>

lemma thread_step_done:
  assumes "tid < length (threads s)" and "t_state (threads s ! tid) = Done"
  shows "thread_step benv env tid s = s"
  using assms by (simp add: thread_step_def Let_def)

lemma thread_step_stopped:
  assumes "tid < length (threads s)" and "t_state (threads s ! tid) = InLoop l"
      and "running s (t_url (threads s ! tid)) = Some False"
  shows "thread_step benv env tid s =
           s\<lparr>ffmpeg_live := ffmpeg_live s - {ffmpeg_process l},
             threads := (threads s)[tid := (threads s ! tid)\<lparr>t_state := Done\<rparr>]\<rparr>"
  using assms by (simp add: thread_step_def capture_iter_def capture_finally_def Let_def)

lemma thread_step_ready:
  assumes "tid < length (threads s)" and "t_state (threads s ! tid) = Ready"
  shows "thread_step benv env tid s =
           s\<lparr>threads := (threads s)[tid := (threads s ! tid)\<lparr>t_state := Done\<rparr>]\<rparr>
         \<or> (\<exists>l. thread_step benv env tid s =
                 s\<lparr>ffmpeg_live := insert (next_pid s) (ffmpeg_live s),
                   next_pid := Suc (next_pid s),
                   threads := (threads s)[tid := (threads s ! tid)\<lparr>t_state := InLoop l\<rparr>]\<rparr>
                \<and> ffmpeg_process l = next_pid s)"
  using assms
  by (auto simp: thread_step_def capture_loop_begin_def Let_def split: option.splits)

lemma join_stopped:
  assumes tid: "tid < length (threads s)"
      and flag: "running s (t_url (threads s ! tid)) = Some False"
      and outside: "\<forall>l. t_state (threads s ! tid) \<noteq> InBody l"
  shows "t_state (threads (join benv env tid s) ! tid) = Done
         \<and> length (threads (join benv env tid s)) = length (threads s)
         \<and> configs (join benv env tid s) = configs s
         \<and> caps (join benv env tid s) = caps s
         \<and> running (join benv env tid s) = running s
         \<and> capture_threads (join benv env tid s) = capture_threads s
         \<and> redis (join benv env tid s) = redis s
         \<and> vcc_table (join benv env tid s) = vcc_table s
         \<and> clip_table (join benv env tid s) = clip_table s
         \<and> open_caps (join benv env tid s) = open_caps s
         \<and> ffmpeg_live (join benv env tid s) \<subseteq> ffmpeg_live s"
proof (cases "t_state (threads s ! tid)")
  case Done
  then show ?thesis
    using tid by (simp add: join_def thread_step_done)
next
  case (InBody l)
  then show ?thesis
    using outside by simp
next
  case (InLoop l)
  have 1: "thread_step benv env tid s =
           s\<lparr>ffmpeg_live := ffmpeg_live s - {ffmpeg_process l},
             threads := (threads s)[tid := (threads s ! tid)\<lparr>t_state := Done\<rparr>]\<rparr>"
    using thread_step_stopped [OF tid InLoop flag] .
  have 2: "thread_step benv env tid (thread_step benv env tid s) = thread_step benv env tid s"
    by (rule thread_step_done) (simp_all add: 1 tid)
  show ?thesis
    unfolding join_def 2 using tid by (auto simp: 1)
next
  case Ready
  from thread_step_ready [OF tid Ready, of benv env]
  show ?thesis
  proof
    assume 1: "thread_step benv env tid s =
           s\<lparr>threads := (threads s)[tid := (threads s ! tid)\<lparr>t_state := Done\<rparr>]\<rparr>"
    have 2: "thread_step benv env tid (thread_step benv env tid s) = thread_step benv env tid s"
      by (rule thread_step_done) (simp_all add: 1 tid)
    show ?thesis
      unfolding join_def 2 using tid by (simp add: 1)
  next
    assume "\<exists>l. thread_step benv env tid s =
                 s\<lparr>ffmpeg_live := insert (next_pid s) (ffmpeg_live s),
                   next_pid := Suc (next_pid s),
                   threads := (threads s)[tid := (threads s ! tid)\<lparr>t_state := InLoop l\<rparr>]\<rparr>
                \<and> ffmpeg_process l = next_pid s"
    then obtain l where 1: "thread_step benv env tid s =
                 s\<lparr>ffmpeg_live := insert (next_pid s) (ffmpeg_live s),
                   next_pid := Suc (next_pid s),
                   threads := (threads s)[tid := (threads s ! tid)\<lparr>t_state := InLoop l\<rparr>]\<rparr>"
      and pid: "ffmpeg_process l = next_pid s"
      by blast
    let ?s1 = "thread_step benv env tid s"
    have a: "tid < length (threads ?s1)"
      using tid by (simp add: 1)
    have b: "t_state (threads ?s1 ! tid) = InLoop l"
      using tid by (simp add: 1)
    have c: "running ?s1 (t_url (threads ?s1 ! tid)) = Some False"
      using tid flag by (simp add: 1)
    note 2 = thread_step_stopped [OF a b c, of benv env]
    show ?thesis
      unfolding join_def 2 using tid pid by (auto simp: 1)
  qed
qed

text \<open>With a supervisor running whose thread is not inside an iteration, and a decode
  handle present, \<^verbatim>\<open>stop_server\<close> succeeds after the thread has returned, the handle
  is released and forgotten, the key of the stream is not in the store, the
  configuration is inactive, and a second call reports not-running and changes
  nothing.\<close>

theorem stop_server_running:
  assumes run: "is_running url s"
      and th: "capture_threads s url = Some tid"
      and tid: "tid < length (threads s)"
      and turl: "t_url (threads s ! tid) = url"
      and outside: "\<forall>l. t_state (threads s ! tid) \<noteq> InBody l"
      and cap: "caps s url = Some (Some h)"
      and cfg: "configs s url = Some c"
  shows "fst (stop_server benv env url s) = Inr (True, ''Server stopped successfully'')
         \<and> t_state (threads (snd (stop_server benv env url s)) ! tid) = Done
         \<and> h \<notin> open_caps (snd (stop_server benv env url s))
         \<and> caps (snd (stop_server benv env url s)) url = None
         \<and> redis (snd (stop_server benv env url s)) (redis_key url) = None
         \<and> configs (snd (stop_server benv env url s)) url = Some (c\<lparr>is_active := False\<rparr>)
         \<and> c\<lparr>is_active := False\<rparr> \<in> set (vcc_table (snd (stop_server benv env url s)))
         \<and> \<not> check_server_status url (snd (stop_server benv env url s))
         \<and> stop_server benv' env' url (snd (stop_server benv env url s)) =
             (Inr (False, ''Server not running''), snd (stop_server benv env url s))"
proof -
  define s1 where "s1 = s\<lparr>running := (running s)(url \<mapsto> False)\<rparr>"
  define s2 where "s2 = join benv env tid s1"
  have tid1: "tid < length (threads s1)"
    using tid by (simp add: s1_def)
  have flag: "running s1 (t_url (threads s1 ! tid)) = Some False"
    using turl by (simp add: s1_def)
  have outside1: "\<forall>l. t_state (threads s1 ! tid) \<noteq> InBody l"
    using outside by (simp add: s1_def)
  note j = join_stopped [OF tid1 flag outside1, of benv env, folded s2_def]
  have ct2: "capture_threads s2 url = Some tid"
    using j th by (simp add: s1_def)
  have caps2: "caps s2 url = Some (Some h)"
    using j cap by (simp add: s1_def)
  have cfg2: "configs s2 url = Some c"
    using j cfg by (simp add: s1_def)
  have run2: "running s2 url = Some False"
    using j by (simp add: s1_def)
  define s3 where "s3 = s2\<lparr>capture_threads := (capture_threads s2)(url := None)\<rparr>"
  define s4 where "s4 = (release h s3)\<lparr>caps := (caps (release h s3))(url := None)\<rparr>"
  define s5 where "s5 = s4\<lparr>configs := (configs s4)(url \<mapsto> c\<lparr>is_active := False\<rparr>),
                          vcc_table := save_row (c\<lparr>is_active := False\<rparr>) (vcc_table s4),
                          redis := (redis s4)(redis_key url := None)\<rparr>"
  have da: "stop_deactivate url s4 = (Inr (True, ''Server stopped successfully''), s5)"
    using cfg2 by (simp add: stop_deactivate_def s5_def s4_def s3_def release_def Let_def)
  have rel: "stop_release url s3 = (Inr (True, ''Server stopped successfully''), s5)"
    using caps2 da by (simp add: stop_release_def s3_def s4_def Let_def)
  have stop: "stop_server benv env url s = (Inr (True, ''Server stopped successfully''), s5)"
    using run th ct2 [unfolded s2_def s1_def] rel [unfolded s3_def s2_def s1_def]
    by (simp add: stop_server_def Let_def)
  have nr: "\<not> is_running url s5"
    using run2 by (simp add: is_running_def s5_def s4_def s3_def release_def)
  have "t_state (threads s5 ! tid) = Done"
    using j by (simp add: s5_def s4_def s3_def release_def)
  moreover have "h \<notin> open_caps s5" "caps s5 url = None" "redis s5 (redis_key url) = None"
    "configs s5 url = Some (c\<lparr>is_active := False\<rparr>)"
    by (simp_all add: s5_def s4_def s3_def release_def)
  moreover have "c\<lparr>is_active := False\<rparr> \<in> set (vcc_table s5)"
    by (simp add: s5_def save_row_mem)
  moreover have "\<not> check_server_status url s5"
    using run2 by (simp add: check_server_status_def s5_def s4_def s3_def release_def)
  ultimately show ?thesis
    using stop stop_server_not_running [OF nr] by simp
qed

theorem stop_server_running_witness:
  "is_running ''cam1'' example_loop
   \<and> capture_threads example_loop ''cam1'' = Some 0
   \<and> 0 < length (threads example_loop)
   \<and> t_url (threads example_loop ! 0) = ''cam1''
   \<and> (\<forall>l. t_state (threads example_loop ! 0) \<noteq> InBody l)
   \<and> caps example_loop ''cam1'' = Some (Some 0)
   \<and> configs example_loop ''cam1'' = Some example_config
   \<and> fst (stop_server example_begin (stall_env 0 0) ''cam1'' example_loop) =
        Inr (True, ''Server stopped successfully'')
   \<and> t_state (threads (snd (stop_server example_begin (stall_env 0 0) ''cam1'' example_loop)) ! 0) = Done
   \<and> 0 \<notin> open_caps (snd (stop_server example_begin (stall_env 0 0) ''cam1'' example_loop))
   \<and> redis (snd (stop_server example_begin (stall_env 0 0) ''cam1'' example_loop)) (redis_key ''cam1'') = None
   \<and> \<not> check_server_status ''cam1'' (snd (stop_server example_begin (stall_env 0 0) ''cam1'' example_loop))
   \<and> stop_server example_begin (stall_env 0 0) ''cam1''
        (snd (stop_server example_begin (stall_env 0 0) ''cam1'' example_loop)) =
       (Inr (False, ''Server not running''),
        snd (stop_server example_begin (stall_env 0 0) ''cam1'' example_loop))"
proof -
  have a: "is_running ''cam1'' example_loop"
    by (simp add: is_running_def example_loop_def)
  have b: "capture_threads example_loop ''cam1'' = Some 0"
    by (simp add: example_loop_def)
  have c: "0 < length (threads example_loop)"
    by (simp add: example_loop_def)
  have d: "t_url (threads example_loop ! 0) = ''cam1''"
    by (simp add: example_loop_def)
  have e: "caps example_loop ''cam1'' = Some (Some 0)"
    by (simp add: example_loop_def)
  have g: "\<forall>l. t_state (threads example_loop ! 0) \<noteq> InBody l"
    by (simp add: example_loop_def)
  have f: "configs example_loop ''cam1'' = Some example_config"
    by (simp add: example_loop_def)
  show ?thesis
    using a b c d e f g
      stop_server_running [OF a b c d g e f, of example_begin "stall_env 0 0" example_begin "stall_env 0 0"]
    by simp
qed

text \<open>A call of \<^verbatim>\<open>stop_server\<close> that finds the thread inside an iteration waits for the
  rest of that iteration.  When the read fails and the escalation test fires,
  \<^verbatim>\<open>_set_inactive\<close> removes the thread's entry and line 86 raises \<^verbatim>\<open>KeyError\<close>; when
  the reconnect does not open the source, the entry of \<^verbatim>\<open>caps\<close> is \<^verbatim>\<open>None\<close> and line
  89 raises \<^verbatim>\<open>AttributeError\<close>.  In both cases the thread has returned.\<close>

lemma stop_inside_iteration:
  "t_state (threads example_in_body ! 0) = InBody example_locals
   \<and> fst (stop_server example_begin (stall_env 2 8) ''cam1'' example_in_body) = Inl KeyError
   \<and> t_state (threads (snd (stop_server example_begin (stall_env 2 8) ''cam1''
         example_in_body)) ! 0) = Done
   \<and> fst (stop_server example_begin ((stall_env 2 3)\<lparr>e_reopen := False\<rparr>) ''cam1''
         example_in_body) = Inl AttributeError
   \<and> t_state (threads (snd (stop_server example_begin ((stall_env 2 3)\<lparr>e_reopen := False\<rparr>)
         ''cam1'' example_in_body)) ! 0) = Done"
  by (simp add: example_in_body_def start_defs eval_defs example_defs)

text \<open>The loop body does not read the list of threads, so a step from the head of the
  loop with the flag set is the test of line 161 followed by the rest of the
  iteration.\<close>

lemma capture_body_threads:
  "capture_body env url (s\<lparr>threads := ts\<rparr>) l =
     (case capture_body env url s l of (e, s1, l1) \<Rightarrow> (e, s1\<lparr>threads := ts\<rparr>, l1))"
  by (simp add: capture_body_def cap_is_opened_def reconnect_def initialize_capture_def
      release_def save_video_clip_metadata_def Let_def split: option.splits)

lemma capture_check_threads:
  "capture_check env url (s\<lparr>threads := ts\<rparr>) l =
     (case capture_check env url s l of (r, s1) \<Rightarrow> (r, s1\<lparr>threads := ts\<rparr>))"
  by (simp add: capture_check_def set_inactive_def release_def Let_def split: option.splits)

lemma capture_rest_threads:
  "capture_rest env url (s\<lparr>threads := ts\<rparr>) l =
     (case capture_rest env url s l of (r, s1, l1) \<Rightarrow> (r, s1\<lparr>threads := ts\<rparr>, l1))"
  by (simp add: capture_rest_def capture_body_threads capture_check_threads
      split: prod.splits option.splits)

lemma capture_check_keeps_threads:
  "capture_check env url s l = (r, s1) \<Longrightarrow> threads s1 = threads s"
  by (auto simp: capture_check_def set_inactive_def release_def Let_def
      split: option.splits if_splits prod.splits)

lemma capture_rest_keeps_threads:
  assumes "capture_rest env url s l = (r, s1, l1)"
  shows "threads s1 = threads s"
proof -
  obtain e sb lb where b: "capture_body env url s l = (e, sb, lb)"
    by (cases "capture_body env url s l")
  have "threads sb = threads s"
    using capture_body_frame [OF b] by simp
  moreover have "threads s1 = threads sb"
    using assms b
    by (auto simp: capture_rest_def split: option.splits prod.splits
        dest: capture_check_keeps_threads)
  ultimately show ?thesis by simp
qed

lemma thread_step_enter:
  assumes "tid < length (threads s)" and "t_state (threads s ! tid) = InLoop l"
      and "running s (t_url (threads s ! tid)) = Some True"
  shows "thread_step benv env tid (thread_enter tid s) = thread_step benv env tid s"
  using assms
  by (auto simp: thread_step_def thread_enter_def capture_iter_def capture_rest_threads
      capture_finally_def Let_def split: prod.splits iter_result.splits
      dest: capture_rest_keeps_threads)

text \<open>\<open>join\<close> after the flag is cleared always ends with the thread returned, also
  for a thread found inside an iteration.\<close>

lemma capture_check_keeps_flag:
  "capture_check env url s l = (r, s1) \<Longrightarrow> running s url = Some False \<Longrightarrow>
     running s1 url = Some False"
  by (auto simp: capture_check_def set_inactive_def release_def Let_def
      split: option.splits if_splits prod.splits)

lemma capture_rest_keeps_flag:
  assumes "capture_rest env url s l = (r, s1, l1)" and "running s url = Some False"
  shows "running s1 url = Some False"
proof -
  obtain e sb lb where b: "capture_body env url s l = (e, sb, lb)"
    by (cases "capture_body env url s l")
  have "running sb url = Some False"
    using capture_body_frame [OF b] assms(2) by simp
  then show ?thesis
    using assms(1) b
    by (auto simp: capture_rest_def split: option.splits prod.splits
        dest: capture_check_keeps_flag)
qed

lemma join_returns:
  assumes tid: "tid < length (threads s)"
      and flag: "running s (t_url (threads s ! tid)) = Some False"
  shows "tid < length (threads (join benv env tid s))
         \<and> t_state (threads (join benv env tid s) ! tid) = Done"
proof (cases "\<exists>l. t_state (threads s ! tid) = InBody l")
  case False
  then have "\<forall>l. t_state (threads s ! tid) \<noteq> InBody l"
    by simp
  from join_stopped [OF tid flag this, of benv env] show ?thesis
    using tid by simp
next
  case True
  then obtain l where l: "t_state (threads s ! tid) = InBody l"
    by blast
  let ?t = "threads s ! tid"
  obtain r s1 l1 where rest: "capture_rest env (t_url ?t) s l = (r, s1, l1)"
    by (cases "capture_rest env (t_url ?t) s l")
  have th1: "threads s1 = threads s"
    using capture_rest_keeps_threads [OF rest] .
  have fl1: "running s1 (t_url ?t) = Some False"
    using capture_rest_keeps_flag [OF rest flag] .
  show ?thesis
  proof (cases "r = Continue")
    case True
    have 1: "thread_step benv env tid s =
               s1\<lparr>threads := (threads s)[tid := ?t\<lparr>t_state := InLoop l1\<rparr>]\<rparr>"
      using tid l rest True th1 by (simp add: thread_step_def Let_def)
    let ?s1 = "thread_step benv env tid s"
    have a: "tid < length (threads ?s1)"
      using tid by (simp add: 1)
    have b: "t_state (threads ?s1 ! tid) = InLoop l1"
      using tid by (simp add: 1)
    have c: "running ?s1 (t_url (threads ?s1 ! tid)) = Some False"
      using tid fl1 by (simp add: 1)
    note 2 = thread_step_stopped [OF a b c, of benv env]
    show ?thesis
      unfolding join_def 2 using tid by (simp add: 1)
  next
    case False
    have 1: "thread_step benv env tid s =
               (capture_finally l1 s1)\<lparr>threads := (threads s)[tid := ?t\<lparr>t_state := Done\<rparr>]\<rparr>"
      using tid l rest False th1
      by (cases r) (simp_all add: thread_step_def capture_finally_def Let_def)
    have 2: "thread_step benv env tid (thread_step benv env tid s) = thread_step benv env tid s"
      by (rule thread_step_done) (simp_all add: 1 tid)
    show ?thesis
      unfolding join_def 2 using tid by (simp add: 1)
  qed
qed

section \<open>Clip windows\<close>

text \<open>
  C9 (as amended).  Within one run of the capture loop, an iteration commits a clip
  record exactly when its read returns a frame and the time of the read is at least the
  nominal clip duration (30 seconds) past the start of the loop's current window.  The
  record's duration is the length of that window and the next window opens at the time
  of the read, so every window of the loop begins where the one before it ended.  The
  stored \<^verbatim>\<open>end_time\<close> is the clock when the record is written, and the stored
  \<^verbatim>\<open>start_time\<close> is an earlier reading of that clock less the duration rounded to
  whole microseconds.  In every other iteration no record is written and the window
  stays as it was.
\<close>

theorem clip_window_commit:
  assumes "configs s url = Some c"
      and "capture_body env url s l = (err, s1, l1)"
  shows "if cap_is_opened url s \<and> e_read env \<noteq> None
            \<and> video_clip_duration \<le> e_time env - video_clip_start_time l
         then err = None
              \<and> clip_table s1 = clip_table s @
                   [\<lparr>clip_config = config_id c, clip_path = hls_output l,
                     clip_start_time =
                       e_now1 env - timedelta_seconds (e_time env - video_clip_start_time l),
                     clip_end_time = e_now2 env,
                     clip_duration = e_time env - video_clip_start_time l\<rparr>]
              \<and> video_clip_start_time l1 = e_time env
         else clip_table s1 = clip_table s
              \<and> video_clip_start_time l1 = video_clip_start_time l"
  using assms
  by (auto simp: capture_body_def save_video_clip_metadata_def reconnect_def
      initialize_capture_def release_def note_reconnect_def Let_def
      split: option.splits if_splits prod.splits)

lemma example_first_clip:
  "capture_body (read_env 30 (61 / 2) 31) ''cam1'' example_loop example_locals =
     (None,
      example_loop\<lparr>clip_table :=
        [\<lparr>clip_config = 1, clip_path = ''tmp/video_clip/cam1_hls/index.m3u8'',
          clip_start_time = 1 / 2, clip_end_time = 31, clip_duration = 30\<rparr>]\<rparr>,
      example_locals\<lparr>last_frame_time := 30, video_clip_start_time := 30\<rparr>)"
  by (simp add: eval_defs example_defs)

text \<open>A read at 30.0000004 seconds, written while the clock goes from 100 to 101: the
  duration field keeps the number, the start is 100 less 30 seconds.\<close>

lemma timedelta_seconds_rounds: "timedelta_seconds (300000004 / 10000000) = 30"
  by (simp add: timedelta_seconds_def round_half_even_def)

lemma example_rounded_clip:
  "capture_body (read_env (300000004 / 10000000) 100 101) ''cam1'' example_loop example_locals =
     (None,
      example_loop\<lparr>clip_table :=
        [\<lparr>clip_config = 1, clip_path = ''tmp/video_clip/cam1_hls/index.m3u8'',
          clip_start_time = 70, clip_end_time = 101,
          clip_duration = 300000004 / 10000000\<rparr>]\<rparr>,
      example_locals\<lparr>last_frame_time := 300000004 / 10000000,
                     video_clip_start_time := 300000004 / 10000000\<rparr>)"
  by (simp add: eval_defs example_defs)

theorem clip_window_commit_witness:
  "configs example_loop ''cam1'' = Some example_config
   \<and> capture_body (read_env (300000004 / 10000000) 100 101) ''cam1'' example_loop example_locals =
     (None,
      example_loop\<lparr>clip_table :=
        [\<lparr>clip_config = 1, clip_path = ''tmp/video_clip/cam1_hls/index.m3u8'',
          clip_start_time = 70, clip_end_time = 101,
          clip_duration = 300000004 / 10000000\<rparr>]\<rparr>,
      example_locals\<lparr>last_frame_time := 300000004 / 10000000,
                     video_clip_start_time := 300000004 / 10000000\<rparr>)
   \<and> cap_is_opened ''cam1'' example_loop
   \<and> e_read (read_env (300000004 / 10000000) 100 101) \<noteq> None
   \<and> video_clip_duration
        \<le> e_time (read_env (300000004 / 10000000) 100 101) - video_clip_start_time example_locals
   \<and> [\<lparr>clip_config = 1, clip_path = ''tmp/video_clip/cam1_hls/index.m3u8'',
         clip_start_time = 70, clip_end_time = 101,
         clip_duration = 300000004 / 10000000\<rparr>]
      = clip_table example_loop @
          [\<lparr>clip_config = config_id example_config, clip_path = hls_output example_locals,
            clip_start_time = e_now1 (read_env (300000004 / 10000000) 100 101)
               - timedelta_seconds (e_time (read_env (300000004 / 10000000) 100 101)
                   - video_clip_start_time example_locals),
            clip_end_time = e_now2 (read_env (300000004 / 10000000) 100 101),
            clip_duration = e_time (read_env (300000004 / 10000000) 100 101)
               - video_clip_start_time example_locals\<rparr>]
   \<and> video_clip_start_time
        (example_locals\<lparr>last_frame_time := 300000004 / 10000000,
                        video_clip_start_time := 300000004 / 10000000\<rparr>)
      = e_time (read_env (300000004 / 10000000) 100 101)"
proof -
  have c: "configs example_loop ''cam1'' = Some example_config"
    by (simp add: example_loop_def)
  have o: "cap_is_opened ''cam1'' example_loop"
    by (simp add: cap_is_opened_def example_loop_def)
  have r: "e_read (read_env (300000004 / 10000000) 100 101) \<noteq> None"
    by (simp add: read_env_def)
  have d: "video_clip_duration
        \<le> e_time (read_env (300000004 / 10000000) 100 101) - video_clip_start_time example_locals"
    by (simp add: read_env_def example_locals_def video_clip_duration_def)
  show ?thesis
    using clip_window_commit [OF c example_rounded_clip] c o r d example_rounded_clip
    by simp
qed

text \<open>The claim as stated fails on the stored times.  Reads at 30 and 60 seconds commit
  two records; the first is written while the clock goes from 30.5 to 31, so it is
  stored as 0.5 to 31, and the second, written from 60.5 to 61, as 30.5 to 61: the
  second record starts before the first one ends.  The first record is also committed
  at exactly 30 seconds, when the time since the window's start does not exceed the
  nominal duration.\<close>

theorem clip_records_overlap:
  "map (\<lambda>c. (clip_start_time c, clip_end_time c, clip_duration c))
     (clip_table (thread_step example_begin (read_env 60 (121 / 2) 61) 0
        (thread_step example_begin (read_env 30 (61 / 2) 31) 0 example_loop)))
     = [(1 / 2, 31, 30), (61 / 2, 61, 30)]
   \<and> clip_end_time (clip_table (thread_step example_begin (read_env 60 (121 / 2) 61) 0
        (thread_step example_begin (read_env 30 (61 / 2) 31) 0 example_loop)) ! 0)
     \<noteq> clip_start_time (clip_table (thread_step example_begin (read_env 60 (121 / 2) 61) 0
        (thread_step example_begin (read_env 30 (61 / 2) 31) 0 example_loop)) ! 1)
   \<and> clip_start_time (clip_table (thread_step example_begin (read_env 60 (121 / 2) 61) 0
        (thread_step example_begin (read_env 30 (61 / 2) 31) 0 example_loop)) ! 1)
     < clip_end_time (clip_table (thread_step example_begin (read_env 60 (121 / 2) 61) 0
        (thread_step example_begin (read_env 30 (61 / 2) 31) 0 example_loop)) ! 0)"
  by (simp add: eval_defs example_defs)

text \<open>Over any run of iterations the windows tile the time line: the records written
  during the run are appended to the table, each has at least the nominal duration, and
  their durations add up to the distance the window start has moved.\<close>

lemma capture_check_clips:
  "capture_check env url s l = (r, s1) \<Longrightarrow> clip_table s1 = clip_table s"
  by (auto simp: capture_check_def set_inactive_def release_def Let_def
      split: option.splits if_splits prod.splits)

lemma capture_body_clips:
  assumes "capture_body env url s l = (err, s1, l1)"
  shows "(clip_table s1 = clip_table s
          \<and> video_clip_start_time l1 = video_clip_start_time l)
         \<or> (\<exists>c. clip_table s1 = clip_table s @ [c]
                \<and> video_clip_start_time l1 = video_clip_start_time l + clip_duration c
                \<and> video_clip_duration \<le> clip_duration c)"
  using assms
  by (auto simp: capture_body_def save_video_clip_metadata_def reconnect_def
      initialize_capture_def release_def note_reconnect_def Let_def
      split: option.splits if_splits prod.splits)

lemma capture_iter_clips:
  assumes "capture_iter env url s l = (r, s1, l1)"
  shows "\<exists>cs. clip_table s1 = clip_table s @ cs
              \<and> video_clip_start_time l1 = video_clip_start_time l + sum_list (map clip_duration cs)
              \<and> list_all (\<lambda>c. video_clip_duration \<le> clip_duration c) cs"
proof (cases "running s url = Some True")
  case False
  then have "s1 = s \<and> l1 = l"
    using assms by (auto simp: capture_iter_def split: option.splits bool.splits)
  then show ?thesis by simp
next
  case True
  obtain err sb lb where b: "capture_body env url s l = (err, sb, lb)"
    by (cases "capture_body env url s l")
  have l1: "l1 = lb" and tab: "clip_table s1 = clip_table sb"
    using assms True b
    by (auto simp: capture_iter_def capture_rest_def split: option.splits prod.splits
        dest: capture_check_clips)
  from capture_body_clips [OF b] show ?thesis
  proof
    assume "clip_table sb = clip_table s \<and> video_clip_start_time lb = video_clip_start_time l"
    then have "clip_table s1 = clip_table s @ []
               \<and> video_clip_start_time l1 = video_clip_start_time l + sum_list (map clip_duration [])
               \<and> list_all (\<lambda>c. video_clip_duration \<le> clip_duration c) []"
      using l1 tab by simp
    then show ?thesis by blast
  next
    assume "\<exists>c. clip_table sb = clip_table s @ [c]
                \<and> video_clip_start_time lb = video_clip_start_time l + clip_duration c
                \<and> video_clip_duration \<le> clip_duration c"
    then obtain c where "clip_table sb = clip_table s @ [c]"
        "video_clip_start_time lb = video_clip_start_time l + clip_duration c"
        "video_clip_duration \<le> clip_duration c"
      by blast
    then have "clip_table s1 = clip_table s @ [c]
               \<and> video_clip_start_time l1 = video_clip_start_time l + sum_list (map clip_duration [c])
               \<and> list_all (\<lambda>c. video_clip_duration \<le> clip_duration c) [c]"
      using l1 tab by simp
    then show ?thesis by blast
  qed
qed

theorem clip_windows_tile:
  assumes "capture_run envs url s l = (r, s', l')"
  shows "\<exists>cs. clip_table s' = clip_table s @ cs
              \<and> video_clip_start_time l' = video_clip_start_time l + sum_list (map clip_duration cs)
              \<and> list_all (\<lambda>c. video_clip_duration \<le> clip_duration c) cs"
  using assms
proof (induction envs arbitrary: s l)
  case Nil
  then have "clip_table s' = clip_table s @ []
             \<and> video_clip_start_time l' = video_clip_start_time l + sum_list (map clip_duration [])
             \<and> list_all (\<lambda>c. video_clip_duration \<le> clip_duration c) []"
    by simp
  then show ?case by blast
next
  case (Cons env envs)
  obtain r1 s1 l1 where it: "capture_iter env url s l = (r1, s1, l1)"
    by (cases "capture_iter env url s l")
  from capture_iter_clips [OF it] obtain cs1 where
    1: "clip_table s1 = clip_table s @ cs1"
       "video_clip_start_time l1 = video_clip_start_time l + sum_list (map clip_duration cs1)"
       "list_all (\<lambda>c. video_clip_duration \<le> clip_duration c) cs1"
    by blast
  show ?case
  proof (cases "r1 = Continue")
    case False
    then have "s' = s1 \<and> l' = l1"
      using Cons.prems it by (cases r1) auto
    with 1 show ?thesis by blast
  next
    case True
    then have "capture_run envs url s1 l1 = (r, s', l')"
      using Cons.prems it by simp
    from Cons.IH [OF this] obtain cs2 where
      2: "clip_table s' = clip_table s1 @ cs2"
         "video_clip_start_time l' = video_clip_start_time l1 + sum_list (map clip_duration cs2)"
         "list_all (\<lambda>c. video_clip_duration \<le> clip_duration c) cs2"
      by blast
    have "clip_table s' = clip_table s @ (cs1 @ cs2)
          \<and> video_clip_start_time l' =
              video_clip_start_time l + sum_list (map clip_duration (cs1 @ cs2))
          \<and> list_all (\<lambda>c. video_clip_duration \<le> clip_duration c) (cs1 @ cs2)"
      using 1 2 by simp
    then show ?thesis by blast
  qed
qed

lemma example_run:
  "capture_run [read_env 30 (61 / 2) 31, read_env 45 45 45, read_env 60 60 60] ''cam1''
       example_loop example_locals =
     (Continue,
      example_loop\<lparr>clip_table :=
        [\<lparr>clip_config = 1, clip_path = ''tmp/video_clip/cam1_hls/index.m3u8'',
          clip_start_time = 1 / 2, clip_end_time = 31, clip_duration = 30\<rparr>,
         \<lparr>clip_config = 1, clip_path = ''tmp/video_clip/cam1_hls/index.m3u8'',
          clip_start_time = 30, clip_end_time = 60, clip_duration = 30\<rparr>]\<rparr>,
      example_locals\<lparr>last_frame_time := 60, video_clip_start_time := 60\<rparr>)"
  by (simp add: eval_defs example_defs)

theorem clip_windows_tile_witness:
  "capture_run [read_env 30 (61 / 2) 31, read_env 45 45 45, read_env 60 60 60] ''cam1''
       example_loop example_locals =
     (Continue,
      example_loop\<lparr>clip_table :=
        [\<lparr>clip_config = 1, clip_path = ''tmp/video_clip/cam1_hls/index.m3u8'',
          clip_start_time = 1 / 2, clip_end_time = 31, clip_duration = 30\<rparr>,
         \<lparr>clip_config = 1, clip_path = ''tmp/video_clip/cam1_hls/index.m3u8'',
          clip_start_time = 30, clip_end_time = 60, clip_duration = 30\<rparr>]\<rparr>,
      example_locals\<lparr>last_frame_time := 60, video_clip_start_time := 60\<rparr>)
   \<and> (\<exists>cs. clip_table (example_loop\<lparr>clip_table :=
        [\<lparr>clip_config = 1, clip_path = ''tmp/video_clip/cam1_hls/index.m3u8'',
          clip_start_time = 1 / 2, clip_end_time = 31, clip_duration = 30\<rparr>,
         \<lparr>clip_config = 1, clip_path = ''tmp/video_clip/cam1_hls/index.m3u8'',
          clip_start_time = 30, clip_end_time = 60, clip_duration = 30\<rparr>]\<rparr>)
          = clip_table example_loop @ cs
        \<and> video_clip_start_time (example_locals\<lparr>last_frame_time := 60, video_clip_start_time := 60\<rparr>)
          = video_clip_start_time example_locals + sum_list (map clip_duration cs)
        \<and> list_all (\<lambda>c. video_clip_duration \<le> clip_duration c) cs)"
  using clip_windows_tile [OF example_run] example_run by simp

section \<open>The detection loop\<close>




text \<open>The \<^verbatim>\<open>for\<close> loop of \<^verbatim>\<open>_process_frame\<close> writes neither the table of detected
  objects nor the table of key frames, whatever the detector returned.\<close>

lemma build_objects_table:
  "build_objects dflt kf objs s = (err, built, s1) \<Longrightarrow>
     detected_object_table s1 = detected_object_table s
     \<and> key_frame_table s1 = key_frame_table s"
proof (induction objs arbitrary: s err built s1)
  case Nil
  then show ?case by simp
next
  case (Cons obj objs)
  show ?case
  proof (cases "et_get_or_create dflt (det_entity_type obj) (entity_type_table s)")
    case (Inl e)
    with Cons.prems show ?thesis by simp
  next
    case (Inr p)
    obtain et tbl where p: "p = (et, tbl)"
      by (cases p)
    obtain err' built' s' where
      r: "build_objects dflt kf objs (s\<lparr>entity_type_table := tbl\<rparr>) = (err', built', s')"
      by (cases "build_objects dflt kf objs (s\<lparr>entity_type_table := tbl\<rparr>)")
    from Cons.prems Inr p r have "s1 = s'"
      by (simp add: Let_def)
    with Cons.IH [OF r] show ?thesis by simp
  qed
qed

lemma process_frame_table:
  "process_frame dflt env url fr s = (err, dets, built, s1) \<Longrightarrow>
     detected_object_table s1 = detected_object_table s"
  by (auto simp: process_frame_def Let_def split: sum.splits prod.splits
      dest: build_objects_table)

text \<open>
  C3, at an iteration with a frame in the store for \<^verbatim>\<open>cam1\<close>.  The loop creates the
  key frame record and runs the detector, which returns one detection; a
  \<^verbatim>\<open>DetectedObject\<close> tied to the key frame is built in memory, but the table of
  detected objects is still empty when the iteration ends: the detection is not
  persisted.
\<close>

theorem process_frame_saves_no_detection:
  "process_frame example_entity example_draws ''cam1'' (example_decode [1, 2, 3])
       (example_detect\<lparr>od_redis := [redis_key ''cam1'' \<mapsto> [1, 2, 3]]\<rparr>) =
     (None,
      [\<lparr>det_x = 10, det_y = 20, det_width = 55, det_height = 56, det_entity_type = ''person''\<rparr>],
      [\<lparr>do_frame = 1, do_entity_type = example_entity, specific_type = ''person'',
        confidence_score = 1, bounding_box = (10, 20, 55, 56), segmentation = [], re_id = - 1\<rparr>],
      example_detect\<lparr>od_redis := [redis_key ''cam1'' \<mapsto> [1, 2, 3]],
                     key_frame_table := [\<lparr>kf_id = 1, frame_time = 100, frame_index = 0\<rparr>]\<rparr>)
   \<and> detected_object_table
        (snd (detect_iter example_decode example_entity example_draws ''cam1''
               (example_detect\<lparr>od_redis := [redis_key ''cam1'' \<mapsto> [1, 2, 3]]\<rparr>))) = []
   \<and> fst (detect_iter example_decode example_entity example_draws ''cam1''
               (example_detect\<lparr>od_redis := [redis_key ''cam1'' \<mapsto> [1, 2, 3]]\<rparr>)) = Continue"
  by (simp add: process_frame_def detect_iter_def detect_objects_def
      et_get_or_create_def random_choice_def randint_def od_sleep_def example_detect_def
      example_decode_def example_draws_def example_entity_def example_config_def
      init_detect_def redis_key_def Let_def)

section \<open>The placeholder detector\<close>

lemma randint_range:
  assumes "low < high"
  shows "\<exists>n. randint low high r = Inr n \<and> low \<le> n \<and> n < high"
proof -
  have a: "0 \<le> int r mod (high - low)"
    using assms by simp
  have b: "int r mod (high - low) < high - low"
    using assms by simp
  have "randint low high r = Inr (low + int r mod (high - low))"
    using assms by (simp add: randint_def)
  moreover have "low \<le> low + int r mod (high - low)"
    using a by linarith
  moreover have "low + int r mod (high - low) < high"
    using b by linarith
  ultimately show ?thesis by blast
qed

text \<open>Every number of the range is the result of some draw, so a statement about all
  draws is a statement about all results of the generator.\<close>

lemma randint_covers:
  assumes "low \<le> n" "n < high"
  shows "\<exists>r. randint low high r = Inr n"
proof -
  have "int (nat (n - low)) mod (high - low) = n - low"
    using assms by simp
  then have "randint low high (nat (n - low)) = Inr n"
    using assms by (simp add: randint_def)
  then show ?thesis ..
qed

text \<open>
  C10 (as amended).  When the service holds at least one entity type, then for every
  frame wider and higher than 50 pixels and for every random draw the detector returns
  exactly one detection, whose box lies inside the frame: \<open>0 \<le> x\<close>, \<open>0 \<le> y\<close>,
  \<open>x + width \<le> frame width\<close>, \<open>y + height \<le> frame height\<close>, \<open>50 \<le> width < 100\<close>
  and \<open>50 \<le> height < 100\<close>.
\<close>

theorem detect_objects_in_frame:
  assumes types: "entity_types s \<noteq> []"
      and wide: "50 < frame_width f" and high: "50 < frame_height f"
  shows "\<exists>d. detect_objects s (Some f) env = Inr [d]
           \<and> 0 \<le> det_x d \<and> 0 \<le> det_y d
           \<and> det_x d + det_width d \<le> frame_width f
           \<and> det_y d + det_height d \<le> frame_height f
           \<and> 50 \<le> det_width d \<and> det_width d < 100
           \<and> 50 \<le> det_height d \<and> det_height d < 100"
proof -
  obtain entity where c: "random_choice (map fst (entity_types s)) (d_choice env) = Inr entity"
    using types by (simp add: random_choice_def)
  obtain x where x: "randint 0 (frame_width f - 50) (d_x env) = Inr x"
      and x0: "0 \<le> x" and x1: "x < frame_width f - 50"
    using randint_range [of 0 "frame_width f - 50" "d_x env"] wide by auto
  obtain y where y: "randint 0 (frame_height f - 50) (d_y env) = Inr y"
      and y0: "0 \<le> y" and y1: "y < frame_height f - 50"
    using randint_range [of 0 "frame_height f - 50" "d_y env"] high by auto
  obtain w where w: "randint 50 (min 100 (frame_width f - x)) (d_w env) = Inr w"
      and w0: "50 \<le> w" and w1: "w < min 100 (frame_width f - x)"
    using randint_range [of 50 "min 100 (frame_width f - x)" "d_w env"] x1 by auto
  obtain h where h: "randint 50 (min 100 (frame_height f - y)) (d_h env) = Inr h"
      and h0: "50 \<le> h" and h1: "h < min 100 (frame_height f - y)"
    using randint_range [of 50 "min 100 (frame_height f - y)" "d_h env"] y1 by auto
  have "detect_objects s (Some f) env =
          Inr [\<lparr>det_x = x, det_y = y, det_width = w, det_height = h, det_entity_type = entity\<rparr>]"
    by (simp add: detect_objects_def c x y w h)
  then show ?thesis
    using x0 y0 w0 w1 h0 h1 by auto
qed

theorem detect_objects_in_frame_witness:
  "entity_types (init_detect\<lparr>entity_types := [(''person'', \<lparr>et_code = ''person'', et_type_name = ''Person''\<rparr>)]\<rparr>) \<noteq> []
   \<and> 50 < frame_width (Frame 480 640 []) \<and> 50 < frame_height (Frame 480 640 [])
   \<and> (\<exists>d. detect_objects (init_detect\<lparr>entity_types := [(''person'', \<lparr>et_code = ''person'', et_type_name = ''Person''\<rparr>)]\<rparr>)
              (Some (Frame 480 640 [])) \<lparr>d_now = 0, d_choice = 7, d_x = 1000, d_y = 3, d_w = 77, d_h = 12\<rparr> = Inr [d]
           \<and> 0 \<le> det_x d \<and> 0 \<le> det_y d
           \<and> det_x d + det_width d \<le> frame_width (Frame 480 640 [])
           \<and> det_y d + det_height d \<le> frame_height (Frame 480 640 [])
           \<and> 50 \<le> det_width d \<and> det_width d < 100
           \<and> 50 \<le> det_height d \<and> det_height d < 100)"
  using detect_objects_in_frame [of "init_detect\<lparr>entity_types := [(''person'', \<lparr>et_code = ''person'', et_type_name = ''Person''\<rparr>)]\<rparr>"
      "Frame 480 640 []" "\<lparr>d_now = 0, d_choice = 7, d_x = 1000, d_y = 3, d_w = 77, d_h = 12\<rparr>"]
  by (simp add: init_detect_def)

text \<open>The claim as stated fails when no entity type is loaded: on a 640 by 480 frame
  every draw ends in \<^verbatim>\<open>ValueError\<close> (line 144) and no detection is returned.\<close>

theorem detect_objects_no_entity_types:
  "\<forall>env. detect_objects init_detect (Some (Frame 480 640 [])) env = Inl ValueError"
  by (simp add: detect_objects_def init_detect_def random_choice_def)

end
